theory Spec2Isabelle
  imports Complex_Main "HOL-Library.AList" "HOL-Library.Char_ord" "HOL-Library.List_Lexorder"
begin

section \<open>The document tree (nlohmann::json)\<close>

text \<open>
  The reader and the writer of geoson work on a parsed JSON tree. The tree type and the few
  operations the two headers call are modelled here with the behaviour the JSON library
  documents for them. A number node carries the \<open>double\<close> that \<open>get<double>()\<close> returns on it;
  the type \<open>'d\<close> of doubles is left open, since the code under study performs no arithmetic
  on coordinates itself. An object is an association list that holds its entries in key
  order, as the library's \<open>std::map\<close> does; \<open>map_of\<close> looks a key up.
\<close>

datatype 'd json =
    JNull
  | JBool bool
  | JNum 'd
  | JStr string
  | JArr "'d json list"
  | JObj "(string \<times> 'd json) list"

text \<open>
  Every \<open>throw\<close> of the two headers and every exception of the JSON accessors is a value:
  \<^item> \<open>CannotOpen\<close>: "cannot open" (parser.hpp line 22);
  \<^item> \<open>NoTypeField\<close>: "top-level object has no string 'type' field" (line 30);
  \<^item> \<open>MissingProperties\<close>: "missing top-level 'properties'" (line 143);
  \<^item> \<open>MissingCrs\<close>: "'properties' missing string 'crs'" (line 147);
  \<^item> \<open>MissingDatum\<close>: "'properties' missing array 'datum' of >=3 numbers" (line 149);
  \<^item> \<open>MissingHeading\<close>: "'properties' missing numeric 'heading'" (line 151);
  \<^item> \<open>UnknownCRS s\<close>: "Unknown CRS string: s" (line 134);
  \<^item> \<open>JsonTypeError\<close>: the library's \<open>type_error\<close> (an accessor used on a node of the wrong kind);
  \<^item> \<open>JsonOutOfRange\<close>: the library's \<open>out_of_range\<close> (\<open>at\<close> with a missing key or index).
\<close>

datatype error =
    CannotOpen
  | NoTypeField
  | MissingProperties
  | MissingCrs
  | MissingDatum
  | MissingHeading
  | UnknownCRS string
  | JsonTypeError
  | JsonOutOfRange

fun is_null :: "'d json \<Rightarrow> bool" where
  "is_null JNull = True"
| "is_null _ = False"

fun is_string :: "'d json \<Rightarrow> bool" where
  "is_string (JStr _) = True"
| "is_string _ = False"

fun is_number :: "'d json \<Rightarrow> bool" where
  "is_number (JNum _) = True"
| "is_number _ = False"

fun is_array :: "'d json \<Rightarrow> bool" where
  "is_array (JArr _) = True"
| "is_array _ = False"

fun is_object :: "'d json \<Rightarrow> bool" where
  "is_object (JObj _) = True"
| "is_object _ = False"

text \<open>\<open>j.contains(key)\<close>: false on anything but an object.\<close>

fun contains :: "'d json \<Rightarrow> string \<Rightarrow> bool" where
  "contains (JObj kvs) k = (map_of kvs k \<noteq> None)"
| "contains _ k = False"

text \<open>
  \<open>j[key]\<close> as the headers use it: on an object, after \<open>contains\<close> or on a non-const tree,
  where a missing key reads as null.
\<close>

fun subscript :: "'d json \<Rightarrow> string \<Rightarrow> 'd json" where
  "subscript (JObj kvs) k = (case map_of kvs k of Some v \<Rightarrow> v | None \<Rightarrow> JNull)"
| "subscript _ k = JNull"

text \<open>\<open>j.at(key)\<close>: \<open>type_error\<close> off an object, \<open>out_of_range\<close> for a missing key.\<close>

fun at_key :: "'d json \<Rightarrow> string \<Rightarrow> error + 'd json" where
  "at_key (JObj kvs) k = (case map_of kvs k of Some v \<Rightarrow> Inr v | None \<Rightarrow> Inl JsonOutOfRange)"
| "at_key _ k = Inl JsonTypeError"

text \<open>\<open>j.at(i)\<close>: \<open>type_error\<close> off an array, \<open>out_of_range\<close> past its end.\<close>

fun at_idx :: "'d json \<Rightarrow> nat \<Rightarrow> error + 'd json" where
  "at_idx (JArr xs) i = (if i < length xs then Inr (xs ! i) else Inl JsonOutOfRange)"
| "at_idx _ i = Inl JsonTypeError"

text \<open>\<open>j.value(key, dflt)\<close>: \<open>type_error\<close> off an object, the default for a missing key.\<close>

fun value_or :: "'d json \<Rightarrow> string \<Rightarrow> 'd json \<Rightarrow> error + 'd json" where
  "value_or (JObj kvs) k dflt = (case map_of kvs k of Some v \<Rightarrow> Inr v | None \<Rightarrow> Inr dflt)"
| "value_or _ k dflt = Inl JsonTypeError"

fun get_double :: "'d json \<Rightarrow> error + 'd" where
  "get_double (JNum v) = Inr v"
| "get_double _ = Inl JsonTypeError"

fun get_string :: "'d json \<Rightarrow> error + string" where
  "get_string (JStr s) = Inr s"
| "get_string _ = Inl JsonTypeError"

text \<open>\<open>j.size()\<close>: 0 for null, the number of elements of an array or object, 1 otherwise.\<close>

fun json_size :: "'d json \<Rightarrow> nat" where
  "json_size JNull = 0"
| "json_size (JArr xs) = length xs"
| "json_size (JObj kvs) = length kvs"
| "json_size _ = 1"

text \<open>
  \<open>for (auto const &c : j)\<close>: the elements of an array, the values of an object, nothing for
  null, and the node itself once for any other node.
\<close>

fun elements :: "'d json \<Rightarrow> 'd json list" where
  "elements JNull = []"
| "elements (JArr xs) = xs"
| "elements (JObj kvs) = map snd kvs"
| "elements j = [j]"

text \<open>\<open>std::to_string\<close> of an array index, the key that \<open>items()\<close> gives an array element.\<close>

function to_string :: "nat \<Rightarrow> string" where
  "to_string n =
     (if n < 10 then [char_of (48 + n)] else to_string (n div 10) @ [char_of (48 + n mod 10)])"
  by pat_completeness auto
termination
  by (relation "measure id") auto

declare to_string.simps [simp del]

text \<open>
  \<open>j.items()\<close>: the entries of an object, the elements of an array under their indices, nothing
  for null, and the node itself under the empty key otherwise.
\<close>

fun items :: "'d json \<Rightarrow> (string \<times> 'd json) list" where
  "items JNull = []"
| "items (JArr xs) = zip (map to_string [0..<length xs]) xs"
| "items (JObj kvs) = kvs"
| "items j = [([], j)]"

text \<open>
  A loop that pushes \<open>f c\<close> for each \<open>c\<close> and is left by the first exception.
\<close>

fun mapE :: "('a \<Rightarrow> error + 'b) \<Rightarrow> 'a list \<Rightarrow> error + 'b list" where
  "mapE f [] = Inr []"
| "mapE f (c # cs) =
     (case f c of
        Inl e \<Rightarrow> Inl e
      | Inr p \<Rightarrow> (case mapE f cs of Inl e \<Rightarrow> Inl e | Inr ps \<Rightarrow> Inr (p # ps)))"

section \<open>The data model (geoson/types.hpp and the geodesy library)\<close>

text \<open>
  Modelled from the spec: the aggregates of the geodesy library (\<open>concord::Datum\<close>,
  \<open>concord::Euler\<close>, \<open>concord::WGS\<close>, \<open>concord::ENU\<close>, \<open>concord::Point\<close>, \<open>concord::Line\<close>,
  \<open>concord::Path\<close>, \<open>concord::Polygon\<close>) and \<open>geoson/types.hpp\<close> (\<open>CRS\<close>, \<open>Geometry\<close>,
  \<open>Feature\<close>, \<open>FeatureCollection\<close>) are not part of the sources at hand. They are plain data:
  a datum is (lat, lon, alt); a heading is an Euler triple of which only yaw is used; a
  geodetic position is built as (lat, lon, alt); a stored position is a triple of doubles
  built as \<open>Point{x, y, z}\<close>; a line has a start and an end, a path and a polygon have a
  sequence of points; a geometry is one of the four shapes; a feature is a geometry with
  its attribute mapping; a collection has a coordinate-system tag, a datum, a heading, its
  features and its global attributes.
\<close>

datatype 'd Datum = Datum (datum_lat: 'd) (datum_lon: 'd) (datum_alt: 'd)

datatype 'd Euler = Euler (roll: 'd) (pitch: 'd) (yaw: 'd)

datatype 'd WGS = WGS (wgs_lat: 'd) (wgs_lon: 'd) (wgs_alt: 'd)

datatype 'd ENU = ENU (enu_x: 'd) (enu_y: 'd) (enu_z: 'd)

datatype 'd Point = Point (point_x: 'd) (point_y: 'd) (point_z: 'd)

datatype 'd Line = Line (getStart: "'d Point") (getEnd: "'d Point")

datatype 'd Path = Path (path_getPoints: "'d Point list")

datatype 'd Polygon = Polygon (polygon_getPoints: "'d Point list")

datatype CRS = CRS_WGS | CRS_ENU

datatype 'd Geometry =
    GeomPoint "'d Point"
  | GeomLine "'d Line"
  | GeomPath "'d Path"
  | GeomPolygon "'d Polygon"

record 'd Feature =
  geometry :: "'d Geometry"
  properties :: "(string \<times> string) list"

record 'd FeatureCollection =
  crs :: CRS
  datum :: "'d Datum"
  heading :: "'d Euler"
  features :: "'d Feature list"
  global_properties :: "(string \<times> string) list"

text \<open>
  Modelled from the spec: the writer reads a stored position through \<open>p.wgs.lon\<close>,
  \<open>p.wgs.lat\<close> and \<open>p.wgs.alt\<close>; the declaration of \<open>concord::Point\<close> is absent. By the
  spec a position is one triple of doubles whose slots are read as (lon, lat, alt) or as
  (x, y, z) by context only, so the view \<open>p.wgs\<close> of a stored position has x in the lon
  slot, y in the lat slot and z in the alt slot.
\<close>

definition wgs :: "'d Point \<Rightarrow> 'd WGS" where
  "wgs p = WGS (point_y p) (point_x p) (point_z p)"

text \<open>
  \<open>j[key] = v\<close> on the entries of an object: the entry is replaced, or put at its place in
  key order.
\<close>

fun assign :: "string \<Rightarrow> 'v \<Rightarrow> (string \<times> 'v) list \<Rightarrow> (string \<times> 'v) list" where
  "assign k v [] = [(k, v)]"
| "assign k v ((k', v') # kvs) =
     (if k = k' then (k, v) # kvs
      else if k < k' then (k, v) # (k', v') # kvs
      else (k', v') # assign k v kvs)"

text \<open>Sequencing of two steps, the second skipped when the first throws.\<close>

definition bindE :: "error + 'a \<Rightarrow> ('a \<Rightarrow> error + 'b) \<Rightarrow> error + 'b" where
  "bindE m f = (case m of Inl e \<Rightarrow> Inl e | Inr v \<Rightarrow> f v)"

section \<open>The reader (parser.hpp)\<close>

text \<open>
  \<open>op::ReadFeatureCollection\<close>. The file is given as the tree its text parses to, \<open>None\<close>
  when it cannot be opened.
\<close>

definition op_ReadFeatureCollection :: "'d json option \<Rightarrow> error + 'd json" where
  "op_ReadFeatureCollection file =
     (case file of
        None \<Rightarrow> Inl CannotOpen
      | Some j \<Rightarrow>
          if \<not> is_object j \<or> \<not> contains j ''type'' \<or> \<not> is_string (subscript j ''type'')
          then Inl NoTypeField
          else bindE (get_string (subscript j ''type'')) (\<lambda>ty.
            if ty = ''FeatureCollection'' then Inr j
            else if ty = ''Feature'' then
              Inr (JObj (assign ''features'' (JArr [j])
                          (assign ''type'' (JStr ''FeatureCollection'') [])))
            else
              let feat = JObj (assign ''properties'' (JObj [])
                                (assign ''geometry'' j
                                  (assign ''type'' (JStr ''Feature'') [])))
              in Inr (JObj (assign ''features'' (JArr [feat])
                             (assign ''type'' (JStr ''FeatureCollection'') [])))))"

text \<open>
  \<open>parseProperties\<close>. The attribute mapping (\<open>std::unordered_map\<close>) is an association list
  written with \<open>AList.update\<close>; \<open>dump\<close> is the serializer of the JSON library.
\<close>

definition parseProperties :: "('d json \<Rightarrow> string) \<Rightarrow> 'd json \<Rightarrow> (string \<times> string) list" where
  "parseProperties dump props =
     foldl (\<lambda>m (key, val). AList.update key (case val of JStr s \<Rightarrow> s | _ \<Rightarrow> dump val) m)
       [] (items props)"

text \<open>
  \<open>parsePoint\<close>. \<open>toENU\<close> is \<open>concord::WGS::toENU\<close>, the projection of the geodesy library.
\<close>

definition parsePoint ::
  "('d WGS \<Rightarrow> 'd Datum \<Rightarrow> 'd ENU) \<Rightarrow> 'd::zero json \<Rightarrow> 'd Datum \<Rightarrow> CRS \<Rightarrow> error + 'd Point" where
  "parsePoint toENU coords d crsVal =
     bindE (bindE (at_idx coords 0) get_double) (\<lambda>x.
     bindE (bindE (at_idx coords 1) get_double) (\<lambda>y.
     bindE (if json_size coords > 2 then bindE (at_idx coords 2) get_double else Inr 0) (\<lambda>z.
       if crsVal = CRS_ENU then Inr (Point x y z)
       else
         let w = WGS y x z;
             enu = toENU w d
         in Inr (Point (enu_x enu) (enu_y enu) (enu_z enu)))))"

definition parseLineString ::
  "('d WGS \<Rightarrow> 'd Datum \<Rightarrow> 'd ENU) \<Rightarrow> 'd::zero json \<Rightarrow> 'd Datum \<Rightarrow> CRS \<Rightarrow> error + 'd Geometry" where
  "parseLineString toENU coords d crsVal =
     bindE (mapE (\<lambda>c. parsePoint toENU c d crsVal) (elements coords)) (\<lambda>pts.
       if length pts = 2 then Inr (GeomLine (Line (pts ! 0) (pts ! 1)))
       else Inr (GeomPath (Path pts)))"

definition parsePolygon ::
  "('d WGS \<Rightarrow> 'd Datum \<Rightarrow> 'd ENU) \<Rightarrow> 'd::zero json \<Rightarrow> 'd Datum \<Rightarrow> CRS \<Rightarrow> error + 'd Polygon" where
  "parsePolygon toENU coords d crsVal =
     bindE (at_idx coords 0) (\<lambda>ring.
     bindE (mapE (\<lambda>c. parsePoint toENU c d crsVal) (elements ring)) (\<lambda>pts.
       Inr (Polygon pts)))"

lemma size_at_key: "at_key geom k = Inr gs \<Longrightarrow> size gs + 2 \<le> size geom"
proof (cases geom)
  case (JObj kvs)
  assume "at_key geom k = Inr gs"
  with JObj have "map_of kvs k = Some gs"
    by (simp split: option.splits)
  then have "(k, gs) \<in> set kvs"
    by (rule map_of_SomeD)
  then have "size gs + 2 \<le> size_list (size_prod (\<lambda>_. 0) size) kvs"
    by (induction kvs) auto
  with JObj show ?thesis by simp
qed simp_all

lemma size_elements: "size_list size (elements gs) \<le> size gs + 1"
proof (cases gs)
  case (JObj kvs)
  have "size_list size (map snd kvs) \<le> size_list (size_prod (\<lambda>_. 0) size) kvs"
    by (induction kvs) auto
  with JObj show ?thesis by simp
qed simp_all

text \<open>
  \<open>parseGeometry\<close>. The loop over the members of a GeometryCollection, which calls
  \<open>parseGeometry\<close> again and appends what it returns to \<open>out\<close>, is \<open>parseGeometry_subs\<close>.
\<close>

function parseGeometry ::
    "('d WGS \<Rightarrow> 'd Datum \<Rightarrow> 'd ENU) \<Rightarrow> 'd::zero json \<Rightarrow> 'd Datum \<Rightarrow> CRS
       \<Rightarrow> error + 'd Geometry list"
  and parseGeometry_subs ::
    "('d WGS \<Rightarrow> 'd Datum \<Rightarrow> 'd ENU) \<Rightarrow> 'd::zero json list \<Rightarrow> 'd Datum \<Rightarrow> CRS
       \<Rightarrow> error + 'd Geometry list"
where
  "parseGeometry toENU geom d crsVal =
     (case bindE (at_key geom ''type'') get_string of
        Inl e \<Rightarrow> Inl e
      | Inr ty \<Rightarrow>
          if ty = ''Point'' then
            bindE (at_key geom ''coordinates'') (\<lambda>cs.
            bindE (parsePoint toENU cs d crsVal) (\<lambda>p. Inr [GeomPoint p]))
          else if ty = ''LineString'' then
            bindE (at_key geom ''coordinates'') (\<lambda>cs.
            bindE (parseLineString toENU cs d crsVal) (\<lambda>g. Inr [g]))
          else if ty = ''Polygon'' then
            bindE (at_key geom ''coordinates'') (\<lambda>cs.
            bindE (parsePolygon toENU cs d crsVal) (\<lambda>p. Inr [GeomPolygon p]))
          else if ty = ''MultiPoint'' then
            bindE (at_key geom ''coordinates'') (\<lambda>cs.
              mapE (\<lambda>c. bindE (parsePoint toENU c d crsVal) (\<lambda>p. Inr (GeomPoint p)))
                (elements cs))
          else if ty = ''MultiLineString'' then
            bindE (at_key geom ''coordinates'') (\<lambda>cs.
              mapE (\<lambda>linegeoson. parseLineString toENU linegeoson d crsVal) (elements cs))
          else if ty = ''MultiPolygon'' then
            bindE (at_key geom ''coordinates'') (\<lambda>cs.
              mapE (\<lambda>poly. bindE (parsePolygon toENU poly d crsVal) (\<lambda>p. Inr (GeomPolygon p)))
                (elements cs))
          else if ty = ''GeometryCollection'' then
            (case at_key geom ''geometries'' of
               Inl e \<Rightarrow> Inl e
             | Inr gs \<Rightarrow> parseGeometry_subs toENU (elements gs) d crsVal)
          else Inr [])"
| "parseGeometry_subs toENU [] d crsVal = Inr []"
| "parseGeometry_subs toENU (sub # rest) d crsVal =
     (case parseGeometry toENU sub d crsVal of
        Inl e \<Rightarrow> Inl e
      | Inr subs \<Rightarrow>
          (case parseGeometry_subs toENU rest d crsVal of
             Inl e \<Rightarrow> Inl e
           | Inr others \<Rightarrow> Inr (subs @ others)))"
  by pat_completeness auto
termination
proof (relation "measure (\<lambda>a. case a of
         Inl (_, geom, _, _) \<Rightarrow> 2 * size geom
       | Inr (_, gs, _, _) \<Rightarrow> 2 * size_list size gs + 1)", goal_cases)
  case 1
  show ?case by simp
next
  case (2 toENU geom d crsVal ty gs)
  from \<open>at_key geom ''geometries'' = Inr gs\<close> have "size gs + 2 \<le> size geom"
    by (rule size_at_key)
  moreover have "size_list size (elements gs) \<le> size gs + 1"
    by (rule size_elements)
  ultimately show ?case by simp
next
  case 3
  show ?case by simp
next
  case 4
  show ?case by simp
qed

declare parseGeometry.simps [simp del]

text \<open>\<open>parseCRS\<close>.\<close>

definition parseCRS :: "string \<Rightarrow> error + CRS" where
  "parseCRS s =
     (if s = ''EPSG:4326'' \<or> s = ''WGS84'' \<or> s = ''WGS'' then Inr CRS_WGS
      else if s = ''ENU'' \<or> s = ''ECEF'' then Inr CRS_ENU
      else Inl (UnknownCRS s))"

text \<open>
  The body of the loop over the feature entries (lines 176 to 183): the features one entry
  contributes, none when its geometry is null or absent.
\<close>

definition readFeature ::
  "('d json \<Rightarrow> string) \<Rightarrow> ('d WGS \<Rightarrow> 'd Datum \<Rightarrow> 'd ENU) \<Rightarrow> 'd Datum \<Rightarrow> CRS \<Rightarrow> 'd::zero json
     \<Rightarrow> error + 'd Feature list" where
  "readFeature dump toENU d crsVal feat =
     bindE (value_or feat ''geometry'' JNull) (\<lambda>g.
       if is_null g then Inr []
       else
         bindE (parseGeometry toENU (subscript feat ''geometry'') d crsVal) (\<lambda>geoms.
         bindE (value_or feat ''properties'' (JObj [])) (\<lambda>props.
           let props_map = parseProperties dump props
           in Inr (map (\<lambda>g. \<lparr>geometry = g, properties = props_map\<rparr>) geoms))))"

text \<open>The loop itself; \<open>acc\<close> is \<open>fc.features\<close> as built so far.\<close>

fun readFeatures ::
  "('d json \<Rightarrow> string) \<Rightarrow> ('d WGS \<Rightarrow> 'd Datum \<Rightarrow> 'd ENU) \<Rightarrow> 'd Datum \<Rightarrow> CRS \<Rightarrow> 'd::zero json list
     \<Rightarrow> 'd Feature list \<Rightarrow> error + 'd Feature list" where
  "readFeatures dump toENU d crsVal [] acc = Inr acc"
| "readFeatures dump toENU d crsVal (feat # rest) acc =
     (case readFeature dump toENU d crsVal feat of
        Inl e \<Rightarrow> Inl e
      | Inr new \<Rightarrow> readFeatures dump toENU d crsVal rest (acc @ new))"

text \<open>The loop over the top-level properties (lines 166 to 174).\<close>

definition globalProperties :: "('d json \<Rightarrow> string) \<Rightarrow> 'd json \<Rightarrow> (string \<times> string) list" where
  "globalProperties dump P =
     foldl (\<lambda>m (key, val).
              if key \<noteq> ''crs'' \<and> key \<noteq> ''datum'' \<and> key \<noteq> ''heading''
              then AList.update key (case val of JStr s \<Rightarrow> s | _ \<Rightarrow> dump val) m
              else m)
       [] (items P)"

text \<open>
  \<open>ReadFeatureCollection\<close>, the main loader. \<open>crs0\<close> is the tag that a default-constructed
  \<open>FeatureCollection\<close> holds (\<open>FeatureCollection fc;\<close> at line 160; the declaration of the
  type is in \<open>geoson/types.hpp\<close>); its features and global attributes are empty containers.
  \<open>A[0]\<close>, \<open>A[1]\<close>, \<open>A[2]\<close> are read after the size of \<open>A\<close> has been checked.
\<close>

definition ReadFeatureCollection ::
  "('d json \<Rightarrow> string) \<Rightarrow> ('d WGS \<Rightarrow> 'd Datum \<Rightarrow> 'd ENU) \<Rightarrow> CRS \<Rightarrow> 'd::zero json option
     \<Rightarrow> error + 'd FeatureCollection" where
  "ReadFeatureCollection dump toENU crs0 file =
     bindE (op_ReadFeatureCollection file) (\<lambda>fc_json.
       if \<not> contains fc_json ''properties'' \<or> \<not> is_object (subscript fc_json ''properties'')
       then Inl MissingProperties
       else
         let P = subscript fc_json ''properties'' in
         if \<not> contains P ''crs'' \<or> \<not> is_string (subscript P ''crs'') then Inl MissingCrs
         else if \<not> contains P ''datum'' \<or> \<not> is_array (subscript P ''datum'')
                 \<or> json_size (subscript P ''datum'') < 3 then Inl MissingDatum
         else if \<not> contains P ''heading'' \<or> \<not> is_number (subscript P ''heading'')
         then Inl MissingHeading
         else
           bindE (bindE (get_string (subscript P ''crs'')) parseCRS) (\<lambda>crsVal.
           let A = subscript P ''datum'' in
           bindE (bindE (at_idx A 0) get_double) (\<lambda>a0.
           bindE (bindE (at_idx A 1) get_double) (\<lambda>a1.
           bindE (bindE (at_idx A 2) get_double) (\<lambda>a2.
           let d = Datum a0 a1 a2 in
           bindE (get_double (subscript P ''heading'')) (\<lambda>yaw.
           let euler = Euler 0 0 yaw;
               fc = \<lparr>crs = crs0, datum = d, heading = euler, features = [],
                     global_properties = globalProperties dump P\<rparr>
           in bindE (readFeatures dump toENU d crsVal
                       (elements (subscript fc_json ''features'')) (features fc))
                (\<lambda>fs. Inr (fc\<lparr>features := fs\<rparr>))))))))"

section \<open>The writer (writter.hpp)\<close>

text \<open>The helper \<open>ptCoords\<close> of \<open>geometryToJson\<close>: the array [lon, lat, alt].\<close>

definition ptCoords :: "'d Point \<Rightarrow> 'd json" where
  "ptCoords p = JArr [JNum (wgs_lon (wgs p)), JNum (wgs_lat (wgs p)), JNum (wgs_alt (wgs p))]"

fun geometryToJson :: "'d Geometry \<Rightarrow> 'd json" where
  "geometryToJson (GeomPoint shape) =
     JObj (assign ''coordinates'' (ptCoords shape)
            (assign ''type'' (JStr ''Point'') []))"
| "geometryToJson (GeomLine shape) =
     JObj (assign ''coordinates'' (JArr [ptCoords (getStart shape), ptCoords (getEnd shape)])
            (assign ''type'' (JStr ''LineString'') []))"
| "geometryToJson (GeomPath shape) =
     JObj (assign ''coordinates'' (JArr (map ptCoords (path_getPoints shape)))
            (assign ''type'' (JStr ''LineString'') []))"
| "geometryToJson (GeomPolygon shape) =
     (let ring = JArr (map ptCoords (polygon_getPoints shape));
          rings = JArr [ring]
      in JObj (assign ''coordinates'' rings
                (assign ''type'' (JStr ''Polygon'') [])))"

definition featureToJson :: "'d Feature \<Rightarrow> 'd json" where
  "featureToJson f =
     (let j1 = assign ''type'' (JStr ''Feature'') [];
          props = foldl (\<lambda>m kv. assign (fst kv) (JStr (snd kv)) m) [] (properties f);
          j2 = assign ''properties'' (JObj props) j1;
          j3 = assign ''geometry'' (geometryToJson (geometry f)) j2
      in JObj j3)"

definition toJson :: "'d FeatureCollection \<Rightarrow> 'd json" where
  "toJson fc =
     (let j1 = assign ''type'' (JStr ''FeatureCollection'') [];
          P1 = assign ''crs''
                 (case crs fc of CRS_WGS \<Rightarrow> JStr ''EPSG:4326'' | CRS_ENU \<Rightarrow> JStr ''ENU'') [];
          P2 = assign ''datum''
                 (JArr [JNum (datum_lat (datum fc)), JNum (datum_lon (datum fc)),
                        JNum (datum_alt (datum fc))]) P1;
          P3 = assign ''heading'' (JNum (yaw (heading fc))) P2;
          j2 = assign ''properties'' (JObj P3) j1;
          j3 = assign ''features'' (JArr (map featureToJson (features fc))) j2
      in JObj j3)"

section \<open>Instances of the library functions for closed examples\<close>

text \<open>
  The projection and the serializer belong to the two libraries. Where an example needs
  concrete ones, it takes a projection that returns a fixed local position and a serializer
  that returns a fixed text; no example below depends on which.
\<close>

definition const_toENU :: "real ENU \<Rightarrow> real WGS \<Rightarrow> real Datum \<Rightarrow> real ENU" where
  "const_toENU e w d = e"

definition const_dump :: "string \<Rightarrow> real json \<Rightarrow> string" where
  "const_dump s j = s"

section \<open>Well-formed input, for stating the theorems\<close>

text \<open>
  A position that \<open>parsePoint\<close> reads without an exception: an array of two numbers, or an
  array whose first three elements are numbers.
\<close>

fun valid_position :: "'d json \<Rightarrow> bool" where
  "valid_position (JArr [JNum x, JNum y]) = True"
| "valid_position (JArr (JNum x # JNum y # JNum z # rest)) = True"
| "valid_position _ = False"

text \<open>The seven geometry type names that \<open>parseGeometry\<close> tests for.\<close>

definition recognized :: "string list" where
  "recognized = [''Point'', ''LineString'', ''Polygon'', ''MultiPoint'', ''MultiLineString'',
                 ''MultiPolygon'', ''GeometryCollection'']"

text \<open>
  Features for which the import is shown to succeed: an object whose geometry is absent or
  null, or is a Point with a valid position, a LineString that is an array of valid
  positions, or a Polygon whose first ring is an array of valid positions (whatever
  follows the first ring).
\<close>

fun valid_positions :: "'d json \<Rightarrow> bool" where
  "valid_positions (JArr ps) = list_all valid_position ps"
| "valid_positions _ = False"

fun valid_rings :: "'d json \<Rightarrow> bool" where
  "valid_rings (JArr (ring # inner)) = valid_positions ring"
| "valid_rings _ = False"

definition plain_geometry :: "'d json \<Rightarrow> bool" where
  "plain_geometry g =
     (case at_key g ''type'' of
        Inr (JStr ty) \<Rightarrow>
          (case at_key g ''coordinates'' of
             Inr cs \<Rightarrow>
               ty = ''Point'' \<and> valid_position cs
               \<or> ty = ''LineString'' \<and> valid_positions cs
               \<or> ty = ''Polygon'' \<and> valid_rings cs
           | Inl e \<Rightarrow> False)
      | _ \<Rightarrow> False)"

definition plain_feature :: "'d json \<Rightarrow> bool" where
  "plain_feature f =
     (is_object f
      \<and> (is_null (subscript f ''geometry'') \<or> plain_geometry (subscript f ''geometry'')))"

section \<open>What a round trip in local coordinates is expected to give\<close>

text \<open>
  The following definitions are not taken from the source. They say, on the document tree
  alone, which geometry nodes the export of an imported collection is expected to hold,
  and the round-trip theorem compares the writer's output of the reader's result with
  them.

  A position comes back with its x, y and z, with z = 0 when the document gives two
  numbers only, and without what follows the third number.
\<close>

fun written_position :: "'d::zero json \<Rightarrow> 'd json" where
  "written_position (JArr [JNum x, JNum y]) = JArr [JNum x, JNum y, JNum 0]"
| "written_position (JArr (JNum x # JNum y # JNum z # rest)) = JArr [JNum x, JNum y, JNum z]"
| "written_position c = c"

definition geometry_node :: "string \<Rightarrow> 'd json \<Rightarrow> 'd json" where
  "geometry_node ty coords = JObj [(''coordinates'', coords), (''type'', JStr ty)]"

text \<open>
  A Point comes back as a Point with its position; a LineString as a LineString with as
  many positions, each its own; a Polygon as a Polygon whose only ring has the positions
  of the first ring of the input, as many and each its own.
\<close>

definition written_point :: "'d::zero json \<Rightarrow> 'd json" where
  "written_point cs = geometry_node ''Point'' (written_position cs)"

definition written_line :: "'d::zero json \<Rightarrow> 'd json" where
  "written_line cs = geometry_node ''LineString'' (JArr (map written_position (elements cs)))"

fun first_ring :: "'d json \<Rightarrow> 'd json" where
  "first_ring (JArr (ring # inner)) = ring"
| "first_ring _ = JNull"

definition written_polygon :: "'d::zero json \<Rightarrow> 'd json" where
  "written_polygon cs =
     geometry_node ''Polygon'' (JArr [JArr (map written_position (elements (first_ring cs)))])"

lemma size_member: "x \<in> set xs \<Longrightarrow> size x < size_list size xs"
  by (induction xs) auto

lemma size_elements_subscript:
  assumes "x \<in> set (elements (subscript geom k))"
  shows "size x < size geom"
proof (cases geom)
  case (JObj kvs)
  show ?thesis
  proof (cases "map_of kvs k")
    case None
    with JObj assms show ?thesis by simp
  next
    case (Some v)
    with JObj have "at_key geom k = Inr v" by simp
    then have v: "size v + 2 \<le> size geom"
      by (rule size_at_key)
    have "size_list size (elements v) \<le> size v + 1"
      by (rule size_elements)
    moreover from assms JObj Some have "x \<in> set (elements v)" by simp
    then have "size x < size_list size (elements v)"
      by (rule size_member)
    ultimately show ?thesis using v by simp
  qed
qed (use assms in simp_all)

text \<open>
  The geometries expected for one geometry node: a Point, LineString or Polygon stands for
  itself, a MultiPoint, MultiLineString or MultiPolygon for one geometry per element, a
  GeometryCollection for the geometries of its members in order, and a node of any other
  type for none.
\<close>

function written_geometries :: "'d::zero json \<Rightarrow> 'd json list" where
  "written_geometries geom =
     (let ty = subscript geom ''type'';
          cs = subscript geom ''coordinates''
      in if ty = JStr ''Point'' then [written_point cs]
         else if ty = JStr ''LineString'' then [written_line cs]
         else if ty = JStr ''Polygon'' then [written_polygon cs]
         else if ty = JStr ''MultiPoint'' then map written_point (elements cs)
         else if ty = JStr ''MultiLineString'' then map written_line (elements cs)
         else if ty = JStr ''MultiPolygon'' then map written_polygon (elements cs)
         else if ty = JStr ''GeometryCollection'' then
           concat (map written_geometries (elements (subscript geom ''geometries'')))
         else [])"
  by pat_completeness auto
termination
  by (relation "measure size") (auto simp: size_elements_subscript)

declare written_geometries.simps [simp del]

text \<open>
  The geometries expected for one feature entry: none when its geometry is absent or
  null, those of its geometry node otherwise.
\<close>

definition written_back :: "'d::zero json \<Rightarrow> 'd json list" where
  "written_back feat =
     (if is_null (subscript feat ''geometry'') then []
      else written_geometries (subscript feat ''geometry''))"

text \<open>
  Two feature entries carry the same geometry: the same \<open>type\<close> and the same
  \<open>coordinates\<close> under \<open>geometry\<close>.
\<close>

definition same_geometry :: "'d json \<Rightarrow> 'd json \<Rightarrow> bool" where
  "same_geometry a b =
     (at_key (subscript a ''geometry'') ''type'' = at_key (subscript b ''geometry'') ''type''
      \<and> at_key (subscript a ''geometry'') ''coordinates'' =
          at_key (subscript b ''geometry'') ''coordinates'')"

text \<open>Example documents.\<close>

definition example_properties :: "string \<Rightarrow> real json" where
  "example_properties s =
     JObj [(''crs'', JStr s), (''datum'', JArr [JNum 52, JNum 5, JNum 0]), (''heading'', JNum 0)]"

definition example_feature :: "real json \<Rightarrow> real json" where
  "example_feature g =
     JObj [(''geometry'', g), (''properties'', JObj []), (''type'', JStr ''Feature'')]"

definition example_collection :: "string \<Rightarrow> real json list \<Rightarrow> real json" where
  "example_collection s fs =
     JObj [(''features'', JArr fs), (''properties'', example_properties s),
           (''type'', JStr ''FeatureCollection'')]"

definition example_point :: "real json" where
  "example_point = JObj [(''coordinates'', JArr [JNum 1, JNum 2, JNum 3]), (''type'', JStr ''Point'')]"

definition example_line :: "real json" where
  "example_line =
     JObj [(''coordinates'', JArr [JArr [JNum 0, JNum 0, JNum 0], JArr [JNum 1, JNum 1, JNum 0]]),
           (''type'', JStr ''LineString'')]"

definition example_two_rings :: "real json" where
  "example_two_rings =
     JObj [(''coordinates'',
            JArr [JArr [JArr [JNum 0, JNum 0, JNum 0], JArr [JNum 4, JNum 0, JNum 0],
                        JArr [JNum 0, JNum 4, JNum 0]],
                  JArr [JArr [JNum 1, JNum 1, JNum 0], JArr [JNum 2, JNum 1, JNum 0],
                        JArr [JNum 1, JNum 2, JNum 0]]]),
           (''type'', JStr ''Polygon'')]"

definition example_one_ring :: "real json" where
  "example_one_ring =
     JObj [(''coordinates'',
            JArr [JArr [JArr [JNum 0, JNum 0, JNum 0], JArr [JNum 4, JNum 0, JNum 0],
                        JArr [JNum 0, JNum 4, JNum 0]]]),
           (''type'', JStr ''Polygon'')]"

definition example_point_2d :: "real json" where
  "example_point_2d = JObj [(''coordinates'', JArr [JNum 1, JNum 2]), (''type'', JStr ''Point'')]"

definition example_multipoint :: "real json" where
  "example_multipoint =
     JObj [(''coordinates'', JArr [JArr [JNum 5, JNum 6], JArr [JNum 7, JNum 8, JNum 9]]),
           (''type'', JStr ''MultiPoint'')]"

definition example_no_geometry :: "real json" where
  "example_no_geometry = JObj [(''properties'', JObj []), (''type'', JStr ''Feature'')]"

definition example_circle :: "real json" where
  "example_circle =
     JObj [(''coordinates'', JArr [JNum 1, JNum 2, JNum 3]), (''type'', JStr ''Circle'')]"

section \<open>Basic facts\<close>

lemma bindE_Inl [simp]: "bindE (Inl e) f = Inl e"
  by (simp add: bindE_def)

lemma bindE_Inr [simp]: "bindE (Inr v) f = f v"
  by (simp add: bindE_def)

lemma map_of_assign [simp]:
  "map_of (assign k v kvs) k' = (if k' = k then Some v else map_of kvs k')"
  by (induction kvs) auto

section \<open>Reading one position\<close>

text \<open>
  C8: a position of the document is (lon, lat, alt), with alt read as 0 when absent. Under
  the geodetic tag the reader builds the geodetic point as (lat, lon, alt), that is with the
  first two coordinates swapped, projects it at the datum and stores the projected x, y, z.
  Under the local tag the three numbers are stored as they are, as x, y, z, and the
  projection is not applied.
\<close>

theorem parsePoint_axis_order:
  "parsePoint toENU (JArr (JNum lon # JNum lat # JNum alt # rest)) d CRS_WGS =
     Inr (Point (enu_x (toENU (WGS lat lon alt) d))
                (enu_y (toENU (WGS lat lon alt) d))
                (enu_z (toENU (WGS lat lon alt) d)))
   \<and> parsePoint toENU (JArr [JNum lon, JNum lat]) d CRS_WGS =
     Inr (Point (enu_x (toENU (WGS lat lon 0) d))
                (enu_y (toENU (WGS lat lon 0) d))
                (enu_z (toENU (WGS lat lon 0) d)))
   \<and> parsePoint toENU (JArr (JNum lon # JNum lat # JNum alt # rest)) d CRS_ENU =
     Inr (Point lon lat alt)
   \<and> parsePoint toENU (JArr [JNum lon, JNum lat]) d CRS_ENU = Inr (Point lon lat 0)"
  by (simp add: parsePoint_def Let_def)

section \<open>Loops over positions\<close>

lemma parsePoint_valid:
  "valid_position c \<Longrightarrow> \<exists>p. parsePoint toENU c d crsVal = Inr p"
  by (induction c rule: valid_position.induct) (simp_all add: parsePoint_def Let_def)

lemma mapE_Inr_length:
  "mapE f cs = Inr ps \<Longrightarrow> length ps = length cs"
  by (induction cs arbitrary: ps) (auto split: sum.splits)

lemma mapE_total:
  "\<forall>c\<in>set cs. \<exists>p. f c = Inr p \<Longrightarrow> \<exists>ps. mapE f cs = Inr ps"
  by (induction cs) auto

lemma mapE_points:
  assumes "\<forall>c\<in>set cs. valid_position c"
  shows "\<exists>pts. mapE (\<lambda>c. parsePoint toENU c d crsVal) cs = Inr pts \<and> length pts = length cs"
proof -
  from assms have "\<forall>c\<in>set cs. \<exists>p. parsePoint toENU c d crsVal = Inr p"
    by (simp add: parsePoint_valid)
  then obtain pts where pts: "mapE (\<lambda>c. parsePoint toENU c d crsVal) cs = Inr pts"
    using mapE_total [of cs "\<lambda>c. parsePoint toENU c d crsVal"] by blast
  then have "length pts = length cs"
    by (rule mapE_Inr_length)
  with pts show ?thesis by blast
qed

section \<open>LineString: Line or Path\<close>

text \<open>
  C3: for every LineString coordinate array whose positions are well formed, the reader
  returns a geometry: a Line of the two points when the array has exactly 2 positions, and
  for any other count (0, 1, 3, ...) a Path with exactly as many points as the array has
  positions. A LineString node yields that one geometry, and a MultiLineString node
  classifies each of its sub-arrays by the same function, one by one.
\<close>

theorem parseLineString_line_iff_two:
  assumes "\<forall>c\<in>set cs. valid_position c"
  shows "\<exists>pts. mapE (\<lambda>c. parsePoint toENU c d crsVal) cs = Inr pts
           \<and> length pts = length cs
           \<and> parseLineString toENU (JArr cs) d crsVal =
               Inr (if length cs = 2 then GeomLine (Line (pts ! 0) (pts ! 1))
                    else GeomPath (Path pts))
           \<and> parseGeometry toENU
               (JObj (assign ''coordinates'' (JArr cs)
                       (assign ''type'' (JStr ''LineString'') g))) d crsVal =
               Inr [if length cs = 2 then GeomLine (Line (pts ! 0) (pts ! 1))
                    else GeomPath (Path pts)]
           \<and> parseGeometry toENU
               (JObj (assign ''coordinates'' (JArr ls)
                       (assign ''type'' (JStr ''MultiLineString'') g))) d crsVal =
               mapE (\<lambda>linegeoson. parseLineString toENU linegeoson d crsVal) ls"
proof -
  from mapE_points [OF assms] obtain pts
    where pts: "mapE (\<lambda>c. parsePoint toENU c d crsVal) cs = Inr pts"
      and len: "length pts = length cs"
    by blast
  from pts len have line: "parseLineString toENU (JArr cs) d crsVal =
      Inr (if length cs = 2 then GeomLine (Line (pts ! 0) (pts ! 1)) else GeomPath (Path pts))"
    by (simp add: parseLineString_def)
  have single: "parseGeometry toENU
      (JObj (assign ''coordinates'' (JArr cs) (assign ''type'' (JStr ''LineString'') g))) d crsVal =
      Inr [if length cs = 2 then GeomLine (Line (pts ! 0) (pts ! 1)) else GeomPath (Path pts)]"
    by (simp add: parseGeometry.simps line)
  have multi: "parseGeometry toENU
      (JObj (assign ''coordinates'' (JArr ls) (assign ''type'' (JStr ''MultiLineString'') g)))
      d crsVal = mapE (\<lambda>linegeoson. parseLineString toENU linegeoson d crsVal) ls"
    by (simp add: parseGeometry.simps)
  from pts len line single multi show ?thesis by blast
qed

theorem parseLineString_line_iff_two_witness:
  "parseLineString (const_toENU (ENU 0 0 0)) (JArr [JArr [JNum 1, JNum 2], JArr [JNum 3, JNum 4, JNum 5]])
     (Datum 0 0 0) CRS_ENU = Inr (GeomLine (Line (Point 1 2 0) (Point 3 4 5)))
   \<and> parseLineString (const_toENU (ENU 0 0 0)) (JArr [JArr [JNum 1, JNum 2]])
     (Datum 0 0 0) CRS_ENU = Inr (GeomPath (Path [Point 1 2 0]))
   \<and> parseLineString (const_toENU (ENU 0 0 0)) (JArr [])
     (Datum 0 0 0) CRS_ENU = Inr (GeomPath (Path []))
   \<and> parseLineString (const_toENU (ENU 0 0 0))
       (JArr [JArr [JNum 1, JNum 2], JArr [JNum 3, JNum 4], JArr [JNum 5, JNum 6]])
     (Datum 0 0 0) CRS_ENU = Inr (GeomPath (Path [Point 1 2 0, Point 3 4 0, Point 5 6 0]))"
proof -
  let ?two = "[JArr [JNum 1, JNum 2], JArr [JNum 3, JNum 4, JNum (5::real)]]"
  let ?one = "[JArr [JNum 1, JNum (2::real)]]"
  let ?three = "[JArr [JNum 1, JNum 2], JArr [JNum 3, JNum 4], JArr [JNum 5, JNum (6::real)]]"
  have h2: "\<forall>c\<in>set ?two. valid_position c" by simp
  have h1: "\<forall>c\<in>set ?one. valid_position c" by simp
  have h0: "\<forall>c\<in>set ([] :: real json list). valid_position c" by simp
  have h3: "\<forall>c\<in>set ?three. valid_position c" by simp
  from parseLineString_line_iff_two [OF h2, of "const_toENU (ENU 0 0 0)" "Datum 0 0 0" CRS_ENU]
    parseLineString_line_iff_two [OF h1, of "const_toENU (ENU 0 0 0)" "Datum 0 0 0" CRS_ENU]
    parseLineString_line_iff_two [OF h0, of "const_toENU (ENU 0 0 0)" "Datum 0 0 0" CRS_ENU]
    parseLineString_line_iff_two [OF h3, of "const_toENU (ENU 0 0 0)" "Datum 0 0 0" CRS_ENU]
  show ?thesis
    by (simp add: parsePoint_def Let_def) 
qed

section \<open>Polygon: the first ring only\<close>

text \<open>
  C7: for every Polygon coordinate array whose first ring has well-formed positions, the
  polygon read has exactly the points of that first ring, whatever follows the first ring
  in the array (further rings, or anything else): the rest is never looked at and raises no
  error. A Polygon node yields that polygon, and a MultiPolygon node reads each of its
  elements by the same function.
\<close>

theorem parsePolygon_first_ring_only:
  assumes "\<forall>c\<in>set ring. valid_position c"
  shows "\<exists>pts. mapE (\<lambda>c. parsePoint toENU c d crsVal) ring = Inr pts
           \<and> length pts = length ring
           \<and> parsePolygon toENU (JArr (JArr ring # inner)) d crsVal = Inr (Polygon pts)
           \<and> parseGeometry toENU
               (JObj (assign ''coordinates'' (JArr (JArr ring # inner))
                       (assign ''type'' (JStr ''Polygon'') g))) d crsVal =
               Inr [GeomPolygon (Polygon pts)]
           \<and> parseGeometry toENU
               (JObj (assign ''coordinates'' (JArr polys)
                       (assign ''type'' (JStr ''MultiPolygon'') g))) d crsVal =
               mapE (\<lambda>poly. bindE (parsePolygon toENU poly d crsVal) (\<lambda>p. Inr (GeomPolygon p)))
                 polys"
proof -
  from mapE_points [OF assms] obtain pts
    where pts: "mapE (\<lambda>c. parsePoint toENU c d crsVal) ring = Inr pts"
      and len: "length pts = length ring"
    by blast
  from pts have poly: "parsePolygon toENU (JArr (JArr ring # inner)) d crsVal = Inr (Polygon pts)"
    by (simp add: parsePolygon_def)
  have single: "parseGeometry toENU
      (JObj (assign ''coordinates'' (JArr (JArr ring # inner))
              (assign ''type'' (JStr ''Polygon'') g))) d crsVal = Inr [GeomPolygon (Polygon pts)]"
    by (simp add: parseGeometry.simps poly)
  have multi: "parseGeometry toENU
      (JObj (assign ''coordinates'' (JArr polys) (assign ''type'' (JStr ''MultiPolygon'') g)))
      d crsVal =
      mapE (\<lambda>poly. bindE (parsePolygon toENU poly d crsVal) (\<lambda>p. Inr (GeomPolygon p))) polys"
    by (simp add: parseGeometry.simps)
  from pts len poly single multi show ?thesis by blast
qed

theorem parsePolygon_first_ring_only_witness:
  "parsePolygon (const_toENU (ENU 0 0 0))
     (JArr [JArr [JArr [JNum 0, JNum 0], JArr [JNum 4, JNum 0], JArr [JNum 0, JNum 4]],
            JArr [JArr [JNum 1, JNum 1], JArr [JNum 2, JNum 1], JArr [JNum 1, JNum 2]],
            JStr ''not a ring''])
     (Datum 0 0 0) CRS_ENU = Inr (Polygon [Point 0 0 0, Point 4 0 0, Point 0 4 0])"
proof -
  let ?ring = "[JArr [JNum 0, JNum 0], JArr [JNum 4, JNum 0], JArr [JNum 0, JNum (4::real)]]"
  have h: "\<forall>c\<in>set ?ring. valid_position c" by simp
  from parsePolygon_first_ring_only [OF h, of "const_toENU (ENU 0 0 0)" "Datum 0 0 0" CRS_ENU
      "[JArr [JArr [JNum 1, JNum 1], JArr [JNum 2, JNum 1], JArr [JNum 1, JNum 2]],
        JStr ''not a ring'']"]
  show ?thesis
    by (simp add: parsePoint_def Let_def)
qed

section \<open>The coordinate-system aliases\<close>

text \<open>
  C5: \<open>parseCRS\<close> maps "EPSG:4326", "WGS84" and "WGS" to the geodetic tag, "ENU" and "ECEF"
  to the local tag, and fails on every other string; a collection whose properties pass the
  checks of presence and type but whose crs string is outside the table fails to import,
  with the error "Unknown CRS string".
\<close>

theorem crs_alias_table:
  assumes "map_of kvs ''type'' = Some (JStr ''FeatureCollection'')"
    and "map_of kvs ''properties'' = Some (JObj P)"
    and "map_of P ''crs'' = Some (JStr s)"
    and "map_of P ''datum'' = Some (JArr A)" and "3 \<le> length A"
    and "map_of P ''heading'' = Some (JNum h)"
    and "s \<notin> {''EPSG:4326'', ''WGS84'', ''WGS'', ''ENU'', ''ECEF''}"
  shows "parseCRS t =
           (if t \<in> {''EPSG:4326'', ''WGS84'', ''WGS''} then Inr CRS_WGS
            else if t \<in> {''ENU'', ''ECEF''} then Inr CRS_ENU
            else Inl (UnknownCRS t))
       \<and> ReadFeatureCollection dump toENU crs0 (Some (JObj kvs)) = Inl (UnknownCRS s)"
  using assms
  by (simp add: parseCRS_def ReadFeatureCollection_def op_ReadFeatureCollection_def Let_def)

theorem crs_alias_table_witness:
  "parseCRS ''WGS84'' = Inr CRS_WGS
   \<and> ReadFeatureCollection (const_dump []) (const_toENU (ENU 0 0 0)) CRS_ENU
       (Some (JObj [(''features'', JArr []),
                    (''properties'', JObj [(''crs'', JStr ''wgs84''),
                                          (''datum'', JArr [JNum 1, JNum 2, JNum 3]),
                                          (''heading'', JNum 0)]),
                    (''type'', JStr ''FeatureCollection'')]))
     = Inl (UnknownCRS ''wgs84'')"
proof -
  let ?P = "[(''crs'', JStr ''wgs84''), (''datum'', JArr [JNum 1, JNum 2, JNum (3::real)]),
             (''heading'', JNum 0)]"
  let ?kvs = "[(''features'', JArr []), (''properties'', JObj ?P),
               (''type'', JStr ''FeatureCollection'')]"
  have h1: "map_of ?kvs ''type'' = Some (JStr ''FeatureCollection'')" by simp
  have h2: "map_of ?kvs ''properties'' = Some (JObj ?P)" by simp
  have h3: "map_of ?P ''crs'' = Some (JStr ''wgs84'')" by simp
  have h4: "map_of ?P ''datum'' = Some (JArr [JNum 1, JNum 2, JNum 3])" by simp
  have h5: "3 \<le> length [JNum 1, JNum 2, JNum (3::real)]" by simp
  have h6: "map_of ?P ''heading'' = Some (JNum 0)" by simp
  have h7: "''wgs84'' \<notin> {''EPSG:4326'', ''WGS84'', ''WGS'', ''ENU'', ''ECEF''}" by simp
  from crs_alias_table [OF h1 h2 h3 h4 h5 h6 h7,
      of "''WGS84''" "const_dump []" "const_toENU (ENU 0 0 0)" CRS_ENU]
  show ?thesis
    by simp
qed

section \<open>Validation of the top-level properties\<close>

text \<open>
  C4: the check of \<open>datum\<close> looks at the kind of the node and at the size of the array only.
  A collection whose crs is a known alias, whose heading is a number and whose datum is an
  array of three or more elements, one of the first three of which is not a number, passes
  every check and fails in \<open>get<double>()\<close> with the type error of the JSON library, which
  names no field.
\<close>

theorem datum_elements_unchecked:
  assumes "map_of kvs ''type'' = Some (JStr ''FeatureCollection'')"
    and "map_of kvs ''properties'' = Some (JObj P)"
    and "map_of P ''crs'' = Some (JStr s)" and "parseCRS s = Inr c"
    and "map_of P ''datum'' = Some (JArr A)" and "3 \<le> length A"
    and "\<not> (is_number (A ! 0) \<and> is_number (A ! 1) \<and> is_number (A ! 2))"
    and "map_of P ''heading'' = Some (JNum h)"
  shows "ReadFeatureCollection dump toENU crs0 (Some (JObj kvs)) = Inl JsonTypeError"
proof -
  have num: "get_double j = Inl JsonTypeError" if "\<not> is_number j" for j :: "'a json"
    using that by (cases j) simp_all
  have ok: "\<exists>v. get_double j = Inr v" if "is_number j" for j :: "'a json"
    using that by (cases j) simp_all
  from assms(6) obtain x0 x1 x2 rest where A: "A = x0 # x1 # x2 # rest"
    by (cases A; cases "tl A"; cases "tl (tl A)") auto
  with assms(7) consider "\<not> is_number x0"
    | "is_number x0" "\<not> is_number x1"
    | "is_number x0" "is_number x1" "\<not> is_number x2"
    by auto
  then show ?thesis
  proof cases
    case 1
    with assms(1-5,8) A show ?thesis
      by (simp add: ReadFeatureCollection_def op_ReadFeatureCollection_def Let_def num)
  next
    case 2
    from ok [OF 2(1)] obtain v0 where "get_double x0 = Inr v0" by blast
    with 2 assms(1-5,8) A show ?thesis
      by (simp add: ReadFeatureCollection_def op_ReadFeatureCollection_def Let_def num)
  next
    case 3
    from ok [OF 3(1)] obtain v0 where "get_double x0 = Inr v0" by blast
    moreover from ok [OF 3(2)] obtain v1 where "get_double x1 = Inr v1" by blast
    ultimately show ?thesis
      using 3 assms(1-5,8) A
      by (simp add: ReadFeatureCollection_def op_ReadFeatureCollection_def Let_def num)
  qed
qed

text \<open>The datum ["a", "b", "c"].\<close>

theorem datum_elements_unchecked_witness:
  "ReadFeatureCollection (const_dump []) (const_toENU (ENU 0 0 0)) CRS_ENU
     (Some (JObj [(''features'', JArr []),
                  (''properties'', JObj [(''crs'', JStr ''ENU''),
                                        (''datum'', JArr [JStr ''a'', JStr ''b'', JStr ''c'']),
                                        (''heading'', JNum 0)]),
                  (''type'', JStr ''FeatureCollection'')]))
   = Inl JsonTypeError"
proof -
  let ?A = "[JStr ''a'', JStr ''b'', JStr ''c''] :: real json list"
  let ?P = "[(''crs'', JStr ''ENU''), (''datum'', JArr ?A), (''heading'', JNum 0)]"
  let ?kvs = "[(''features'', JArr []), (''properties'', JObj ?P),
               (''type'', JStr ''FeatureCollection'')]"
  have h1: "map_of ?kvs ''type'' = Some (JStr ''FeatureCollection'')" by simp
  have h2: "map_of ?kvs ''properties'' = Some (JObj ?P)" by simp
  have h3: "map_of ?P ''crs'' = Some (JStr ''ENU'')" by simp
  have h4: "parseCRS ''ENU'' = Inr CRS_ENU" by (simp add: parseCRS_def)
  have h5: "map_of ?P ''datum'' = Some (JArr ?A)" by simp
  have h6: "3 \<le> length ?A" by simp
  have h7: "\<not> (is_number (?A ! 0) \<and> is_number (?A ! 1) \<and> is_number (?A ! 2))" by simp
  have h8: "map_of ?P ''heading'' = Some (JNum 0)" by simp
  from datum_elements_unchecked [OF h1 h2 h3 h4 h5 h6 h7 h8,
      of "const_dump []" "const_toENU (ENU 0 0 0)" CRS_ENU]
  show ?thesis .
qed

text \<open>
  In the other cases of a missing or ill-typed field the error names it, and is raised
  whatever the features are: \<open>properties\<close> absent or not an object, \<open>crs\<close> absent or not a
  string, \<open>datum\<close> absent, not an array or shorter than 3, \<open>heading\<close> absent or not a number.
\<close>

lemma ReadFeatureCollection_named_errors:
  assumes "map_of kvs ''type'' = Some (JStr ''FeatureCollection'')"
  shows "(\<nexists>P. map_of kvs ''properties'' = Some (JObj P)) \<Longrightarrow>
           ReadFeatureCollection dump toENU crs0 (Some (JObj kvs)) = Inl MissingProperties"
    and "map_of kvs ''properties'' = Some (JObj P) \<Longrightarrow>
         (\<nexists>s. map_of P ''crs'' = Some (JStr s)) \<Longrightarrow>
           ReadFeatureCollection dump toENU crs0 (Some (JObj kvs)) = Inl MissingCrs"
    and "map_of kvs ''properties'' = Some (JObj P) \<Longrightarrow> map_of P ''crs'' = Some (JStr s) \<Longrightarrow>
         (\<nexists>A. map_of P ''datum'' = Some (JArr A) \<and> 3 \<le> length A) \<Longrightarrow>
           ReadFeatureCollection dump toENU crs0 (Some (JObj kvs)) = Inl MissingDatum"
    and "map_of kvs ''properties'' = Some (JObj P) \<Longrightarrow> map_of P ''crs'' = Some (JStr s) \<Longrightarrow>
         map_of P ''datum'' = Some (JArr A) \<Longrightarrow> 3 \<le> length A \<Longrightarrow>
         (\<nexists>h. map_of P ''heading'' = Some (JNum h)) \<Longrightarrow>
           ReadFeatureCollection dump toENU crs0 (Some (JObj kvs)) = Inl MissingHeading"
proof -
  have obj: "\<not> is_object j" if "\<nexists>P. j = JObj P" for j :: "'a json"
    using that by (cases j) simp_all
  have str: "\<not> is_string j" if "\<nexists>s. j = JStr s" for j :: "'a json"
    using that by (cases j) simp_all
  have num: "\<not> is_number j" if "\<nexists>h. j = JNum h" for j :: "'a json"
    using that by (cases j) simp_all
  have arr: "\<not> is_array j \<or> json_size j < 3" if "\<nexists>A. j = JArr A \<and> 3 \<le> length A"
    for j :: "'a json"
    using that by (cases j) auto
  show "(\<nexists>P. map_of kvs ''properties'' = Some (JObj P)) \<Longrightarrow>
           ReadFeatureCollection dump toENU crs0 (Some (JObj kvs)) = Inl MissingProperties"
    using assms obj [of "the (map_of kvs ''properties'')"]
    by (cases "map_of kvs ''properties''")
       (simp_all add: ReadFeatureCollection_def op_ReadFeatureCollection_def)
  show "map_of kvs ''properties'' = Some (JObj P) \<Longrightarrow>
         (\<nexists>s. map_of P ''crs'' = Some (JStr s)) \<Longrightarrow>
           ReadFeatureCollection dump toENU crs0 (Some (JObj kvs)) = Inl MissingCrs"
    using assms str [of "the (map_of P ''crs'')"]
    by (cases "map_of P ''crs''")
       (simp_all add: ReadFeatureCollection_def op_ReadFeatureCollection_def)
  show "map_of kvs ''properties'' = Some (JObj P) \<Longrightarrow> map_of P ''crs'' = Some (JStr s) \<Longrightarrow>
         (\<nexists>A. map_of P ''datum'' = Some (JArr A) \<and> 3 \<le> length A) \<Longrightarrow>
           ReadFeatureCollection dump toENU crs0 (Some (JObj kvs)) = Inl MissingDatum"
    using assms arr [of "the (map_of P ''datum'')"]
    by (cases "map_of P ''datum''")
       (auto simp: ReadFeatureCollection_def op_ReadFeatureCollection_def)
  show "map_of kvs ''properties'' = Some (JObj P) \<Longrightarrow> map_of P ''crs'' = Some (JStr s) \<Longrightarrow>
         map_of P ''datum'' = Some (JArr A) \<Longrightarrow> 3 \<le> length A \<Longrightarrow>
         (\<nexists>h. map_of P ''heading'' = Some (JNum h)) \<Longrightarrow>
           ReadFeatureCollection dump toENU crs0 (Some (JObj kvs)) = Inl MissingHeading"
    using assms num [of "the (map_of P ''heading'')"]
    by (cases "map_of P ''heading''")
       (simp_all add: ReadFeatureCollection_def op_ReadFeatureCollection_def)
qed

section \<open>Documents that are not a FeatureCollection\<close>



section \<open>Entries that contribute no feature\<close>

lemma readFeatures_append:
  "readFeatures dump toENU d crsVal (fs1 @ fs2) acc =
     bindE (readFeatures dump toENU d crsVal fs1 acc)
       (\<lambda>acc'. readFeatures dump toENU d crsVal fs2 acc')"
  by (induction fs1 arbitrary: acc) (auto split: sum.splits)

lemma readFeatures_skip:
  assumes "readFeature dump toENU d crsVal f = Inr []"
  shows "readFeatures dump toENU d crsVal (fs1 @ f # fs2) acc =
         readFeatures dump toENU d crsVal (fs1 @ fs2) acc"
proof -
  have "readFeatures dump toENU d crsVal (f # fs2) acc' = readFeatures dump toENU d crsVal fs2 acc'"
    for acc'
    using assms by simp
  then show ?thesis
    by (simp only: readFeatures_append)
qed

lemma readFeature_no_geometry:
  assumes "map_of feat ''geometry'' = None \<or> map_of feat ''geometry'' = Some JNull"
  shows "readFeature dump toENU d crsVal (JObj feat) = Inr []"
  using assms by (auto simp: readFeature_def)

lemma parseGeometry_unknown_type:
  assumes "map_of g ''type'' = Some (JStr ty)" and "ty \<notin> set recognized"
  shows "parseGeometry toENU (JObj g) d crsVal = Inr []"
  using assms by (simp add: parseGeometry.simps recognized_def)

lemma readFeature_unknown_type:
  assumes "map_of feat ''geometry'' = Some (JObj g)"
    and "map_of g ''type'' = Some (JStr ty)" and "ty \<notin> set recognized"
  shows "readFeature dump toENU d crsVal (JObj feat) = Inr []"
  using assms by (simp add: readFeature_def parseGeometry_unknown_type split: option.splits)

lemma ReadFeatureCollection_features_cong:
  assumes "\<And>d crsVal. readFeatures dump toENU d crsVal fs [] = readFeatures dump toENU d crsVal fs' []"
  shows "ReadFeatureCollection dump toENU crs0 (Some (JObj (assign ''features'' (JArr fs) kvs))) =
         ReadFeatureCollection dump toENU crs0 (Some (JObj (assign ''features'' (JArr fs') kvs)))"
proof (cases "map_of kvs ''type''")
  case None
  then show ?thesis
    by (simp add: ReadFeatureCollection_def op_ReadFeatureCollection_def)
next
  case (Some t)
  show ?thesis
  proof (cases "\<exists>ty. t = JStr ty")
    case False
    then have "\<not> is_string t"
      by (cases t) simp_all
    with Some show ?thesis
      by (simp add: ReadFeatureCollection_def op_ReadFeatureCollection_def)
  next
    case True
    then obtain ty where ty: "t = JStr ty" by blast
    show ?thesis
    proof (cases "ty = ''FeatureCollection''")
      case True
      with Some ty show ?thesis
        by (simp add: ReadFeatureCollection_def op_ReadFeatureCollection_def Let_def assms)
    next
      case False
      with Some ty show ?thesis
        by (simp add: ReadFeatureCollection_def op_ReadFeatureCollection_def Let_def)
    qed
  qed
qed

text \<open>
  C6: a feature entry whose geometry is absent or null, or is a node whose type is none of
  the seven recognized names, contributes no feature: the loop body returns the empty list
  for it without an error, and a document imports exactly as it does with that entry
  removed from its features array, so neither case aborts the import. A geometry node of
  an unrecognized type reads as zero geometries.
\<close>

theorem skipped_entries_contribute_nothing:
  assumes "map_of feat ''geometry'' = None \<or> map_of feat ''geometry'' = Some JNull
         \<or> (\<exists>g ty. map_of feat ''geometry'' = Some (JObj g) \<and> map_of g ''type'' = Some (JStr ty)
                \<and> ty \<notin> set recognized)"
  shows "readFeature dump toENU d crsVal (JObj feat) = Inr []
       \<and> ReadFeatureCollection dump toENU crs0
           (Some (JObj (assign ''features'' (JArr (fs1 @ JObj feat # fs2)) kvs))) =
         ReadFeatureCollection dump toENU crs0
           (Some (JObj (assign ''features'' (JArr (fs1 @ fs2)) kvs)))
       \<and> (map_of geom ''type'' = Some (JStr ty') \<and> ty' \<notin> set recognized \<longrightarrow>
            parseGeometry toENU (JObj geom) d crsVal = Inr [])"
proof -
  have none: "readFeature dump toENU d' c' (JObj feat) = Inr []" for d' c'
    using assms readFeature_no_geometry [of feat dump toENU d' c']
      readFeature_unknown_type [of feat _ _ dump toENU d' c']
    by blast
  then have "readFeatures dump toENU d' c' (fs1 @ JObj feat # fs2) [] =
             readFeatures dump toENU d' c' (fs1 @ fs2) []" for d' c'
    by (rule readFeatures_skip)
  then have "ReadFeatureCollection dump toENU crs0
           (Some (JObj (assign ''features'' (JArr (fs1 @ JObj feat # fs2)) kvs))) =
         ReadFeatureCollection dump toENU crs0
           (Some (JObj (assign ''features'' (JArr (fs1 @ fs2)) kvs)))"
    by (rule ReadFeatureCollection_features_cong)
  with none [of d crsVal] parseGeometry_unknown_type [of geom ty' toENU d crsVal]
  show ?thesis by blast
qed

section \<open>Evaluating the examples\<close>

lemma example_collection_assign:
  "example_collection s fs =
     JObj (assign ''features'' (JArr fs)
            [(''properties'', example_properties s), (''type'', JStr ''FeatureCollection'')])"
  by (simp add: example_collection_def)

lemmas example_defs =
  example_collection_def example_properties_def example_feature_def example_point_def
  example_line_def example_two_rings_def example_one_ring_def example_no_geometry_def
  example_circle_def example_point_2d_def example_multipoint_def

lemmas reader_defs =
  ReadFeatureCollection_def op_ReadFeatureCollection_def parseCRS_def readFeature_def
  parseGeometry.simps parseLineString_def parsePolygon_def parsePoint_def parseProperties_def
  globalProperties_def Let_def

text \<open>
  A collection with a Point, an entry with null geometry, an entry without geometry, an
  entry of type "Circle" and a two-point LineString imports to two features.
\<close>

theorem skipped_entries_contribute_nothing_witness:
  "ReadFeatureCollection (const_dump []) (const_toENU (ENU 0 0 0)) CRS_ENU
     (Some (example_collection ''ENU''
        [example_feature example_point, example_feature JNull, example_no_geometry,
         example_feature example_circle, example_feature example_line]))
   = Inr \<lparr>crs = CRS_ENU, datum = Datum 52 5 0, heading = Euler 0 0 0,
          features = [\<lparr>geometry = GeomPoint (Point 1 2 3), properties = []\<rparr>,
                      \<lparr>geometry = GeomLine (Line (Point 0 0 0) (Point 1 1 0)), properties = []\<rparr>],
          global_properties = []\<rparr>
   \<and> parseGeometry (const_toENU (ENU 0 0 0)) example_circle (Datum 52 5 0) CRS_ENU = Inr []"
proof -
  let ?toENU = "const_toENU (ENU 0 0 0)"
  let ?kvs = "[(''properties'', example_properties ''ENU''), (''type'', JStr ''FeatureCollection'')]"
  let ?null = "[(''geometry'', JNull), (''properties'', JObj []), (''type'', JStr ''Feature'')]
                 :: (string \<times> real json) list"
  let ?absent = "[(''properties'', JObj []), (''type'', JStr ''Feature'')]
                 :: (string \<times> real json) list"
  let ?circle = "[(''geometry'', example_circle), (''properties'', JObj []),
                  (''type'', JStr ''Feature'')]"
  have h_null: "map_of ?null ''geometry'' = None \<or> map_of ?null ''geometry'' = Some JNull
      \<or> (\<exists>g ty. map_of ?null ''geometry'' = Some (JObj g) \<and> map_of g ''type'' = Some (JStr ty)
             \<and> ty \<notin> set recognized)"
    by simp
  have h_absent: "map_of ?absent ''geometry'' = None \<or> map_of ?absent ''geometry'' = Some JNull
      \<or> (\<exists>g ty. map_of ?absent ''geometry'' = Some (JObj g) \<and> map_of g ''type'' = Some (JStr ty)
             \<and> ty \<notin> set recognized)"
    by simp
  have h_circle: "map_of ?circle ''geometry'' = None \<or> map_of ?circle ''geometry'' = Some JNull
      \<or> (\<exists>g ty. map_of ?circle ''geometry'' = Some (JObj g) \<and> map_of g ''type'' = Some (JStr ty)
             \<and> ty \<notin> set recognized)"
    by (simp add: example_circle_def recognized_def)
  have h_type: "map_of [(''coordinates'', JArr [JNum 1, JNum 2, JNum (3::real)]),
                        (''type'', JStr ''Circle'')] ''type'' = Some (JStr ''Circle'')
                \<and> ''Circle'' \<notin> set recognized"
    by (simp add: recognized_def)
  note s1 = skipped_entries_contribute_nothing [OF h_null,
      of "const_dump []" ?toENU "Datum 52 5 0" CRS_ENU CRS_ENU
         "[example_feature example_point]"
         "[example_no_geometry, example_feature example_circle, example_feature example_line]"
         ?kvs]
  note s2 = skipped_entries_contribute_nothing [OF h_absent,
      of "const_dump []" ?toENU "Datum 52 5 0" CRS_ENU CRS_ENU
         "[example_feature example_point]"
         "[example_feature example_circle, example_feature example_line]"
         ?kvs]
  note s3 = skipped_entries_contribute_nothing [OF h_circle,
      of "const_dump []" ?toENU "Datum 52 5 0" CRS_ENU CRS_ENU
         "[example_feature example_point]"
         "[example_feature example_line]"
         ?kvs
         "[(''coordinates'', JArr [JNum 1, JNum 2, JNum 3]), (''type'', JStr ''Circle'')]"
         "''Circle''"]
  have rest: "ReadFeatureCollection (const_dump []) ?toENU CRS_ENU
     (Some (example_collection ''ENU'' [example_feature example_point, example_feature example_line]))
   = Inr \<lparr>crs = CRS_ENU, datum = Datum 52 5 0, heading = Euler 0 0 0,
          features = [\<lparr>geometry = GeomPoint (Point 1 2 3), properties = []\<rparr>,
                      \<lparr>geometry = GeomLine (Line (Point 0 0 0) (Point 1 1 0)), properties = []\<rparr>],
          global_properties = []\<rparr>"
    by (simp add: example_defs reader_defs)
  from s1 s2 s3 h_type rest show ?thesis
    by (simp add: example_collection_assign example_feature_def example_no_geometry_def
        example_circle_def)
qed

section \<open>The tag of an imported collection\<close>

lemma bindE_eq_Inr: "bindE m f = Inr r \<longleftrightarrow> (\<exists>v. m = Inr v \<and> f v = Inr r)"
  by (cases m) simp_all



section \<open>What the writer emits\<close>

text \<open>
  C2: the writer puts the stored x, y, z of every position into the lon, lat, alt slots,
  unchanged, for each of the four geometry variants: the position of a Point, the two ends
  of a Line, every point of a Path in order, and every point of a Polygon as its only ring.
  The geometry of a feature is written by that function, and the features written are the
  same whatever the collection's coordinate-system tag and datum are, which the geometry
  writer never receives: no inverse transform to geodetic coordinates is applied.
\<close>

theorem writer_emits_stored_coordinates:
  "at_key (geometryToJson (GeomPoint p)) ''coordinates'' =
     Inr (JArr [JNum (point_x p), JNum (point_y p), JNum (point_z p)])
   \<and> at_key (geometryToJson (GeomLine (Line p q))) ''coordinates'' =
     Inr (JArr [JArr [JNum (point_x p), JNum (point_y p), JNum (point_z p)],
                JArr [JNum (point_x q), JNum (point_y q), JNum (point_z q)]])
   \<and> at_key (geometryToJson (GeomPath (Path ps))) ''coordinates'' =
     Inr (JArr (map (\<lambda>p. JArr [JNum (point_x p), JNum (point_y p), JNum (point_z p)]) ps))
   \<and> at_key (geometryToJson (GeomPolygon (Polygon ps))) ''coordinates'' =
     Inr (JArr [JArr (map (\<lambda>p. JArr [JNum (point_x p), JNum (point_y p), JNum (point_z p)]) ps)])
   \<and> at_key (featureToJson f) ''geometry'' = Inr (geometryToJson (geometry f))
   \<and> at_key (toJson (fc\<lparr>crs := c, datum := d\<rparr>)) ''features'' =
     Inr (JArr (map featureToJson (features fc)))"
  by (simp add: ptCoords_def wgs_def toJson_def featureToJson_def Let_def)

section \<open>Import followed by export, local coordinates\<close>

text \<open>
  What the reader stores under the local tag is written back by the writer as the expected
  node: position by position, then shape by shape, then along the recursion of
  \<open>parseGeometry\<close>.
\<close>

lemma parsePoint_written:
  assumes "parsePoint toENU c d CRS_ENU = Inr p"
  shows "ptCoords p = written_position c"
  using assms
  by (induction c rule: written_position.induct)
     (auto simp: parsePoint_def ptCoords_def wgs_def bindE_eq_Inr split: if_splits)

lemma mapE_map:
  assumes "mapE f cs = Inr ys" and "\<And>c y. f c = Inr y \<Longrightarrow> g y = h c"
  shows "map g ys = map h cs"
  using assms by (induction cs arbitrary: ys) (auto split: sum.splits)

lemma at_key_subscript: "at_key g k = Inr v \<Longrightarrow> subscript g k = v"
  by (cases g) (auto split: option.splits)

lemma get_string_Inr: "get_string t = Inr s \<Longrightarrow> t = JStr s"
  by (cases t) simp_all

lemma parseLineString_written:
  assumes "parseLineString toENU cs d CRS_ENU = Inr shape"
  shows "geometryToJson shape = written_line cs"
proof -
  from assms obtain pts
    where pts: "mapE (\<lambda>c. parsePoint toENU c d CRS_ENU) (elements cs) = Inr pts"
      and shape: "shape = (if length pts = 2 then GeomLine (Line (pts ! 0) (pts ! 1))
                           else GeomPath (Path pts))"
    by (auto simp: parseLineString_def bindE_eq_Inr split: if_splits)
  from pts have coords: "map ptCoords pts = map written_position (elements cs)"
    by (rule mapE_map) (rule parsePoint_written)
  show ?thesis
  proof (cases "length pts = 2")
    case True
    then obtain a b where "pts = [a, b]"
      by (cases pts rule: list.exhaust [case_product list.exhaust])
         (auto simp: length_Suc_conv)
    with shape coords show ?thesis
      by (auto simp: written_line_def geometry_node_def)
  next
    case False
    with shape coords show ?thesis
      by (simp add: written_line_def geometry_node_def)
  qed
qed

lemma parsePolygon_written:
  assumes "parsePolygon toENU cs d CRS_ENU = Inr poly"
  shows "geometryToJson (GeomPolygon poly) = written_polygon cs"
proof -
  from assms obtain ring pts
    where ring: "at_idx cs 0 = Inr ring"
      and pts: "mapE (\<lambda>c. parsePoint toENU c d CRS_ENU) (elements ring) = Inr pts"
      and poly: "poly = Polygon pts"
    by (auto simp: parsePolygon_def bindE_eq_Inr)
  from ring have "first_ring cs = ring"
    by (induction cs rule: first_ring.induct) (simp_all split: if_splits)
  moreover from pts have "map ptCoords pts = map written_position (elements ring)"
    by (rule mapE_map) (rule parsePoint_written)
  ultimately show ?thesis
    using poly by (simp add: written_polygon_def geometry_node_def)
qed

lemma parseGeometry_written:
  "parseGeometry toENU geom d crsVal = Inr shapes \<Longrightarrow> crsVal = CRS_ENU \<Longrightarrow>
     map geometryToJson shapes = written_geometries geom"
  and parseGeometry_subs_written:
  "parseGeometry_subs toENU gs d crsVal = Inr shapes \<Longrightarrow> crsVal = CRS_ENU \<Longrightarrow>
     map geometryToJson shapes = concat (map written_geometries gs)"
proof (induction toENU geom d crsVal and toENU gs d crsVal arbitrary: shapes and shapes
    rule: parseGeometry_parseGeometry_subs.induct)
  case (1 toENU geom d crsVal)
  from "1.prems"(1) obtain t ty where t: "at_key geom ''type'' = Inr t" "get_string t = Inr ty"
    by (auto simp: parseGeometry.simps [of toENU geom] bindE_eq_Inr split: sum.splits)
  then have ty: "subscript geom ''type'' = JStr ty"
    by (simp add: at_key_subscript get_string_Inr)
  from t have b: "bindE (at_key geom ''type'') get_string = Inr ty" by simp
  have cs: "subscript geom ''coordinates'' = cs" if "at_key geom ''coordinates'' = Inr cs" for cs
    using that by (rule at_key_subscript)
  consider (point) "ty = ''Point''" | (line) "ty = ''LineString''" | (polygon) "ty = ''Polygon''"
    | (mpoint) "ty = ''MultiPoint''" | (mline) "ty = ''MultiLineString''"
    | (mpolygon) "ty = ''MultiPolygon''" | (coll) "ty = ''GeometryCollection''"
    | (other) "ty \<notin> set recognized"
    by (auto simp: recognized_def)
  then show ?case
  proof cases
    case point
    with "1.prems" b obtain cs p where "at_key geom ''coordinates'' = Inr cs"
      "parsePoint toENU cs d CRS_ENU = Inr p" "shapes = [GeomPoint p]"
      by (auto simp: parseGeometry.simps [of toENU geom] bindE_eq_Inr)
    with ty point show ?thesis
      by (simp add: written_geometries.simps [of geom] cs parsePoint_written written_point_def
          geometry_node_def)
  next
    case line
    with "1.prems" b obtain cs g where "at_key geom ''coordinates'' = Inr cs"
      "parseLineString toENU cs d CRS_ENU = Inr g" "shapes = [g]"
      by (auto simp: parseGeometry.simps [of toENU geom] bindE_eq_Inr)
    with ty line show ?thesis
      by (simp add: written_geometries.simps [of geom] cs parseLineString_written)
  next
    case polygon
    with "1.prems" b obtain cs p where "at_key geom ''coordinates'' = Inr cs"
      "parsePolygon toENU cs d CRS_ENU = Inr p" "shapes = [GeomPolygon p]"
      by (auto simp: parseGeometry.simps [of toENU geom] bindE_eq_Inr)
    with ty polygon show ?thesis
      by (simp add: written_geometries.simps [of geom] cs parsePolygon_written
          del: geometryToJson.simps)
  next
    case mpoint
    with "1.prems" b obtain cs where c: "at_key geom ''coordinates'' = Inr cs"
      and m: "mapE (\<lambda>c. bindE (parsePoint toENU c d CRS_ENU) (\<lambda>p. Inr (GeomPoint p)))
               (elements cs) = Inr shapes"
      by (auto simp: parseGeometry.simps [of toENU geom] bindE_eq_Inr)
    from m have "map geometryToJson shapes = map written_point (elements cs)"
      by (rule mapE_map)
         (auto simp: bindE_eq_Inr parsePoint_written written_point_def geometry_node_def)
    with ty mpoint c show ?thesis
      by (simp add: written_geometries.simps [of geom] cs)
  next
    case mline
    with "1.prems" b obtain cs where c: "at_key geom ''coordinates'' = Inr cs"
      and m: "mapE (\<lambda>l. parseLineString toENU l d CRS_ENU) (elements cs) = Inr shapes"
      by (auto simp: parseGeometry.simps [of toENU geom] bindE_eq_Inr)
    from m have "map geometryToJson shapes = map written_line (elements cs)"
      by (rule mapE_map) (rule parseLineString_written)
    with ty mline c show ?thesis
      by (simp add: written_geometries.simps [of geom] cs)
  next
    case mpolygon
    with "1.prems" b obtain cs where c: "at_key geom ''coordinates'' = Inr cs"
      and m: "mapE (\<lambda>poly. bindE (parsePolygon toENU poly d CRS_ENU) (\<lambda>p. Inr (GeomPolygon p)))
               (elements cs) = Inr shapes"
      by (auto simp: parseGeometry.simps [of toENU geom] bindE_eq_Inr)
    from m have "map geometryToJson shapes = map written_polygon (elements cs)"
      by (rule mapE_map) (auto simp: bindE_eq_Inr parsePolygon_written simp del: geometryToJson.simps)
    with ty mpolygon c show ?thesis
      by (simp add: written_geometries.simps [of geom] cs)
  next
    case coll
    with "1.prems" b obtain gs where g: "at_key geom ''geometries'' = Inr gs"
      and m: "parseGeometry_subs toENU (elements gs) d crsVal = Inr shapes"
      by (auto simp: parseGeometry.simps [of toENU geom] split: sum.splits)
    from coll have neq: "ty \<noteq> ''Point''" "ty \<noteq> ''LineString''" "ty \<noteq> ''Polygon''"
      "ty \<noteq> ''MultiPoint''" "ty \<noteq> ''MultiLineString''" "ty \<noteq> ''MultiPolygon''"
      by simp_all
    from "1.IH" [OF b neq coll g m "1.prems"(2)]
    have "map geometryToJson shapes = concat (map written_geometries (elements gs))" .
    with ty coll g show ?thesis
      by (simp add: written_geometries.simps [of geom] at_key_subscript)
  next
    case other
    with "1.prems" b have "shapes = []"
      by (auto simp: parseGeometry.simps [of toENU geom] recognized_def)
    with ty other show ?thesis
      by (auto simp: written_geometries.simps [of geom] recognized_def)
  qed
next
  case (2 toENU d crsVal)
  then show ?case by simp
next
  case (3 toENU sub rest d crsVal)
  from "3.prems"(1) obtain subs others
    where s: "parseGeometry toENU sub d crsVal = Inr subs"
      and r: "parseGeometry_subs toENU rest d crsVal = Inr others"
      and shapes: "shapes = subs @ others"
    by (auto split: sum.splits)
  from "3.IH"(1) [OF s "3.prems"(2)] "3.IH"(2) [OF s r "3.prems"(2)] shapes
  show ?case by simp
qed


lemma subscript_featureToJson [simp]:
  "subscript (featureToJson f) ''geometry'' = geometryToJson (geometry f)"
  by (simp add: featureToJson_def Let_def)

lemma readFeature_written:
  assumes "readFeature dump toENU d CRS_ENU feat = Inr fts"
  shows "map (\<lambda>f. geometryToJson (geometry f)) fts = written_back feat"
proof -
  from assms obtain g where g: "value_or feat ''geometry'' JNull = Inr g"
    by (auto simp: readFeature_def bindE_eq_Inr)
  then have sub: "subscript feat ''geometry'' = g"
    by (cases feat) (auto split: option.splits)
  show ?thesis
  proof (cases "is_null g")
    case True
    with assms g sub show ?thesis
      by (simp add: readFeature_def written_back_def)
  next
    case False
    with assms g sub obtain geoms props
      where geoms: "parseGeometry toENU g d CRS_ENU = Inr geoms"
        and fts: "fts = map (\<lambda>g. \<lparr>geometry = g, properties = parseProperties dump props\<rparr>) geoms"
      by (auto simp: readFeature_def bindE_eq_Inr Let_def)
    from geoms have "map geometryToJson geoms = written_geometries g"
      by (rule parseGeometry_written) simp
    with fts False sub show ?thesis
      by (simp add: written_back_def comp_def)
  qed
qed

lemma readFeatures_written:
  assumes "readFeatures dump toENU d CRS_ENU fs acc = Inr res"
  shows "map (\<lambda>f. geometryToJson (geometry f)) res =
           map (\<lambda>f. geometryToJson (geometry f)) acc @ concat (map written_back fs)"
  using assms
proof (induction fs arbitrary: acc)
  case Nil
  then show ?case by simp
next
  case (Cons feat fs)
  from Cons.prems obtain new
    where new: "readFeature dump toENU d CRS_ENU feat = Inr new"
      and rest: "readFeatures dump toENU d CRS_ENU fs (acc @ new) = Inr res"
    by (auto split: sum.splits)
  from Cons.IH [OF rest] readFeature_written [OF new] show ?case by simp
qed

lemma ReadFeatureCollection_Inr:
  assumes "ReadFeatureCollection dump toENU crs0 (Some (JObj kvs)) = Inr fc"
  shows "\<exists>P s crsVal d. map_of kvs ''properties'' = Some (JObj P)
           \<and> map_of P ''crs'' = Some (JStr s) \<and> parseCRS s = Inr crsVal
           \<and> readFeatures dump toENU d crsVal (elements (subscript (JObj kvs) ''features'')) [] =
               Inr (features fc)"
proof -
  from assms obtain fc_json where op: "op_ReadFeatureCollection (Some (JObj kvs)) = Inr fc_json"
    and props: "contains fc_json ''properties''"
    by (auto simp: ReadFeatureCollection_def bindE_eq_Inr split: if_splits)
  have "fc_json = JObj kvs"
  proof (rule ccontr)
    assume "fc_json \<noteq> JObj kvs"
    with op have "\<not> contains fc_json ''properties''"
      by (auto simp: op_ReadFeatureCollection_def bindE_eq_Inr Let_def split: if_splits)
    with props show False by simp
  qed
  with op have op': "op_ReadFeatureCollection (Some (JObj kvs)) = Inr (JObj kvs)" by simp
  from assms op' obtain P where P: "map_of kvs ''properties'' = Some (JObj P)"
    by (cases "map_of kvs ''properties''"; cases "the (map_of kvs ''properties'')")
       (auto simp: ReadFeatureCollection_def)
  from assms op' P obtain s where s: "map_of P ''crs'' = Some (JStr s)"
    by (cases "map_of P ''crs''"; cases "the (map_of P ''crs'')")
       (auto simp: ReadFeatureCollection_def split: if_splits)
  from assms op' P s show ?thesis
    by (auto simp: ReadFeatureCollection_def Let_def bindE_eq_Inr split: if_splits)
qed

lemma enu_export_of_import:
  assumes "map_of kvs ''properties'' = Some (JObj P)"
    and "map_of P ''crs'' = Some (JStr s)" and "s = ''ENU'' \<or> s = ''ECEF''"
    and "ReadFeatureCollection dump toENU crs0 (Some (JObj kvs)) = Inr fc"
  shows "\<exists>outs. at_key (toJson fc) ''features'' = Inr (JArr outs)
           \<and> map (\<lambda>out. subscript out ''geometry'') outs =
               concat (map written_back (elements (subscript (JObj kvs) ''features'')))"
proof -
  from ReadFeatureCollection_Inr [OF assms(4)] assms(1,2) obtain crsVal d
    where crs: "parseCRS s = Inr crsVal"
      and fs: "readFeatures dump toENU d crsVal (elements (subscript (JObj kvs) ''features'')) [] =
                 Inr (features fc)"
    by auto
  from crs assms(3) have "crsVal = CRS_ENU"
    by (auto simp: parseCRS_def)
  with fs have "map (\<lambda>f. geometryToJson (geometry f)) (features fc) =
      concat (map written_back (elements (subscript (JObj kvs) ''features'')))"
    using readFeatures_written [of dump toENU d _ "[]" "features fc"] by simp
  moreover have "at_key (toJson fc) ''features'' = Inr (JArr (map featureToJson (features fc)))"
    by (simp add: toJson_def Let_def)
  ultimately show ?thesis
    by (intro exI [of _ "map featureToJson (features fc)"]) (simp add: comp_def)
qed

text \<open>Plain features are read without an exception.\<close>

lemma valid_positions_read:
  assumes "valid_positions cs"
  shows "\<exists>pts. mapE (\<lambda>c. parsePoint toENU c d crsVal) (elements cs) = Inr pts"
proof -
  from assms obtain ps where "cs = JArr ps" "\<forall>c\<in>set ps. valid_position c"
    by (cases cs) (simp_all add: list_all_iff)
  with mapE_points [of ps toENU d crsVal] show ?thesis by auto
qed

lemma parseGeometry_plain:
  assumes "plain_geometry g"
  shows "\<exists>shapes. parseGeometry toENU g d crsVal = Inr shapes"
proof -
  from assms obtain kvs where g: "g = JObj kvs"
    by (cases g) (simp_all add: plain_geometry_def)
  from assms g obtain ty cs where ty: "map_of kvs ''type'' = Some (JStr ty)"
    and cs: "map_of kvs ''coordinates'' = Some cs"
    and kind: "ty = ''Point'' \<and> valid_position cs \<or> ty = ''LineString'' \<and> valid_positions cs
       \<or> ty = ''Polygon'' \<and> valid_rings cs"
    by (auto simp: plain_geometry_def split: option.splits json.splits)
  from kind consider (point) "ty = ''Point''" "valid_position cs"
    | (line) "ty = ''LineString''" "valid_positions cs"
    | (polygon) "ty = ''Polygon''" "valid_rings cs"
    by blast
  then show ?thesis
  proof cases
    case point
    from parsePoint_valid [OF point(2), of toENU d crsVal] g ty cs point(1) show ?thesis
      by (auto simp: parseGeometry.simps)
  next
    case line
    from valid_positions_read [OF line(2), of toENU d crsVal] g ty cs line(1) show ?thesis
      by (auto simp: parseGeometry.simps parseLineString_def)
  next
    case polygon
    then obtain ring inner where r: "cs = JArr (ring # inner)" "valid_positions ring"
      by (cases cs rule: valid_rings.cases) simp_all
    from valid_positions_read [OF r(2), of toENU d crsVal] g ty cs polygon(1) r(1) show ?thesis
      by (auto simp: parseGeometry.simps parsePolygon_def)
  qed
qed

lemma readFeature_plain:
  assumes "plain_feature f"
  shows "\<exists>fts. readFeature dump toENU d crsVal f = Inr fts"
proof -
  from assms obtain feat where f: "f = JObj feat"
    by (cases f) (simp_all add: plain_feature_def)
  show ?thesis
  proof (cases "is_null (subscript f ''geometry'')")
    case True
    with f show ?thesis
      by (auto simp: readFeature_def split: option.splits)
  next
    case False
    with assms have "plain_geometry (subscript f ''geometry'')"
      by (simp add: plain_feature_def)
    from parseGeometry_plain [OF this, of toENU d crsVal] False f show ?thesis
      by (auto simp: readFeature_def Let_def split: option.splits)
  qed
qed

lemma readFeatures_plain:
  assumes "list_all plain_feature fs"
  shows "\<exists>res. readFeatures dump toENU d crsVal fs acc = Inr res"
  using assms
proof (induction fs arbitrary: acc)
  case Nil
  then show ?case by simp
next
  case (Cons f fs)
  from Cons.prems readFeature_plain [of f dump toENU d crsVal] obtain fts
    where "readFeature dump toENU d crsVal f = Inr fts"
    by auto
  with Cons.IH [of "acc @ fts"] Cons.prems show ?case by simp
qed

text \<open>
  C1, amended: for every document tagged "ENU" or "ECEF" that imports, the exported
  document holds, for the feature entries of the input in order, one feature per geometry
  that the entry carries: none for an absent or null geometry, the node itself for a Point,
  LineString or Polygon, one per element for a MultiPoint, MultiLineString or MultiPolygon,
  the geometries of its members for a GeometryCollection, none for a type that is not
  recognized. Each exported geometry has the type, the number of positions and the x, y, z
  of the input geometry it stands for (z = 0 where the input position has two numbers
  only); for a Polygon these are the positions of its first ring, the only ring exported.
  A collection with valid properties whose feature entries are objects without geometry,
  or with a Point, LineString or Polygon of valid positions, does import.
\<close>

theorem enu_round_trip:
  assumes "map_of kvs ''properties'' = Some (JObj P)"
    and "map_of P ''crs'' = Some (JStr s)" and "s = ''ENU'' \<or> s = ''ECEF''"
  shows "(ReadFeatureCollection dump toENU crs0 (Some (JObj kvs)) = Inr fc \<longrightarrow>
            (\<exists>outs. at_key (toJson fc) ''features'' = Inr (JArr outs)
               \<and> map (\<lambda>out. subscript out ''geometry'') outs =
                   concat (map written_back (elements (subscript (JObj kvs) ''features'')))))
       \<and> (map_of kvs ''type'' = Some (JStr ''FeatureCollection'')
            \<and> map_of P ''datum'' = Some (JArr (JNum a0 # JNum a1 # JNum a2 # A))
            \<and> map_of P ''heading'' = Some (JNum h)
            \<and> list_all plain_feature (elements (subscript (JObj kvs) ''features'')) \<longrightarrow>
          (\<exists>fc' outs. ReadFeatureCollection dump toENU crs0 (Some (JObj kvs)) = Inr fc'
             \<and> at_key (toJson fc') ''features'' = Inr (JArr outs)
             \<and> map (\<lambda>out. subscript out ''geometry'') outs =
                 concat (map written_back (elements (subscript (JObj kvs) ''features'')))))"
proof (intro conjI impI)
  assume "ReadFeatureCollection dump toENU crs0 (Some (JObj kvs)) = Inr fc"
  with assms show "\<exists>outs. at_key (toJson fc) ''features'' = Inr (JArr outs)
      \<and> map (\<lambda>out. subscript out ''geometry'') outs =
          concat (map written_back (elements (subscript (JObj kvs) ''features'')))"
    by (rule enu_export_of_import)
next
  assume wf: "map_of kvs ''type'' = Some (JStr ''FeatureCollection'')
      \<and> map_of P ''datum'' = Some (JArr (JNum a0 # JNum a1 # JNum a2 # A))
      \<and> map_of P ''heading'' = Some (JNum h)
      \<and> list_all plain_feature (elements (subscript (JObj kvs) ''features''))"
  from assms(3) have crs: "parseCRS s = Inr CRS_ENU"
    by (auto simp: parseCRS_def)
  from wf readFeatures_plain [of "elements (subscript (JObj kvs) ''features'')" dump toENU
      "Datum a0 a1 a2" CRS_ENU "[]"]
  obtain res where res: "readFeatures dump toENU (Datum a0 a1 a2) CRS_ENU
      (elements (subscript (JObj kvs) ''features'')) [] = Inr res"
    by blast
  let ?fc = "\<lparr>crs = crs0, datum = Datum a0 a1 a2, heading = Euler 0 0 h, features = res,
              global_properties = globalProperties dump (JObj P)\<rparr>"
  from wf assms(1,2) crs res
  have ok: "ReadFeatureCollection dump toENU crs0 (Some (JObj kvs)) = Inr ?fc"
    by (simp add: ReadFeatureCollection_def op_ReadFeatureCollection_def Let_def)
  from enu_export_of_import [OF assms ok] ok
  show "\<exists>fc' outs. ReadFeatureCollection dump toENU crs0 (Some (JObj kvs)) = Inr fc'
      \<and> at_key (toJson fc') ''features'' = Inr (JArr outs)
      \<and> map (\<lambda>out. subscript out ''geometry'') outs =
          concat (map written_back (elements (subscript (JObj kvs) ''features'')))"
    by blast
qed


text \<open>The expected geometries of a feature entry, kind by kind.\<close>

lemma written_back_kinds:
  assumes "map_of feat ''geometry'' = Some (JObj g)"
    and "map_of g ''type'' = Some (JStr ty)" and "map_of g ''coordinates'' = Some cs"
  shows "ty = ''Point'' \<Longrightarrow>
           written_back (JObj feat) = [geometry_node ''Point'' (written_position cs)]"
    and "ty = ''LineString'' \<Longrightarrow>
           written_back (JObj feat) =
             [geometry_node ''LineString'' (JArr (map written_position (elements cs)))]"
    and "ty = ''Polygon'' \<Longrightarrow>
           written_back (JObj feat) =
             [geometry_node ''Polygon''
                (JArr [JArr (map written_position (elements (first_ring cs)))])]"
    and "ty = ''MultiPoint'' \<Longrightarrow> written_back (JObj feat) = map written_point (elements cs)"
    and "ty = ''MultiLineString'' \<Longrightarrow> written_back (JObj feat) = map written_line (elements cs)"
    and "ty = ''MultiPolygon'' \<Longrightarrow>
           written_back (JObj feat) = map written_polygon (elements cs)"
    and "ty \<notin> set recognized \<Longrightarrow> written_back (JObj feat) = []"
  using assms
  by (simp_all add: written_back_def written_geometries.simps [of "JObj g"] written_point_def
      written_line_def written_polygon_def recognized_def)

text \<open>
  A Point given by two numbers, a two-point LineString, a Polygon with two rings, an entry
  with null geometry and a MultiPoint come back as five features: the Point with z = 0,
  the LineString as it was, the Polygon with its first ring, and one Point per position of
  the MultiPoint.
\<close>

theorem enu_round_trip_witness:
  "ReadFeatureCollection (const_dump []) (const_toENU (ENU 0 0 0)) CRS_ENU
     (Some (example_collection ''ENU''
        [example_feature example_point_2d, example_feature example_line,
         example_feature example_two_rings, example_feature JNull,
         example_feature example_multipoint]))
   = Inr \<lparr>crs = CRS_ENU, datum = Datum 52 5 0, heading = Euler 0 0 0,
          features =
            [\<lparr>geometry = GeomPoint (Point 1 2 0), properties = []\<rparr>,
             \<lparr>geometry = GeomLine (Line (Point 0 0 0) (Point 1 1 0)), properties = []\<rparr>,
             \<lparr>geometry = GeomPolygon (Polygon [Point 0 0 0, Point 4 0 0, Point 0 4 0]),
               properties = []\<rparr>,
             \<lparr>geometry = GeomPoint (Point 5 6 0), properties = []\<rparr>,
             \<lparr>geometry = GeomPoint (Point 7 8 9), properties = []\<rparr>],
          global_properties = []\<rparr>
   \<and> (\<exists>outs.
        at_key (toJson \<lparr>crs = CRS_ENU, datum = Datum 52 5 0, heading = Euler 0 0 0,
          features =
            [\<lparr>geometry = GeomPoint (Point 1 2 (0::real)), properties = []\<rparr>,
             \<lparr>geometry = GeomLine (Line (Point 0 0 0) (Point 1 1 0)), properties = []\<rparr>,
             \<lparr>geometry = GeomPolygon (Polygon [Point 0 0 0, Point 4 0 0, Point 0 4 0]),
               properties = []\<rparr>,
             \<lparr>geometry = GeomPoint (Point 5 6 0), properties = []\<rparr>,
             \<lparr>geometry = GeomPoint (Point 7 8 9), properties = []\<rparr>],
          global_properties = []\<rparr>) ''features'' = Inr (JArr outs)
        \<and> map (\<lambda>out. subscript out ''geometry'') outs =
            [geometry_node ''Point'' (JArr [JNum 1, JNum 2, JNum 0]),
             example_line, example_one_ring,
             geometry_node ''Point'' (JArr [JNum 5, JNum 6, JNum 0]),
             geometry_node ''Point'' (JArr [JNum 7, JNum 8, JNum 9])])
   \<and> (\<exists>fc' outs.
        ReadFeatureCollection (const_dump []) (const_toENU (ENU 0 0 0)) CRS_ENU
          (Some (example_collection ''ENU''
             [example_feature example_point_2d, example_feature example_line,
              example_feature example_two_rings, example_feature JNull])) = Inr fc'
        \<and> at_key (toJson fc') ''features'' = Inr (JArr outs)
        \<and> map (\<lambda>out. subscript out ''geometry'') outs =
            [geometry_node ''Point'' (JArr [JNum 1, JNum 2, JNum 0]),
             example_line, example_one_ring])"
proof -
  let ?plain = "[example_feature example_point_2d, example_feature example_line,
                 example_feature example_two_rings, example_feature JNull]"
  let ?mixed = "?plain @ [example_feature example_multipoint]"
  let ?P = "[(''crs'', JStr ''ENU''), (''datum'', JArr [JNum 52, JNum 5, JNum (0::real)]),
             (''heading'', JNum 0)]"
  let ?kvs = "\<lambda>fs. [(''features'', JArr fs), (''properties'', JObj ?P),
                     (''type'', JStr ''FeatureCollection'')]"
  let ?fc = "\<lparr>crs = CRS_ENU, datum = Datum 52 5 0, heading = Euler 0 0 0,
          features =
            [\<lparr>geometry = GeomPoint (Point 1 2 (0::real)), properties = []\<rparr>,
             \<lparr>geometry = GeomLine (Line (Point 0 0 0) (Point 1 1 0)), properties = []\<rparr>,
             \<lparr>geometry = GeomPolygon (Polygon [Point 0 0 0, Point 4 0 0, Point 0 4 0]),
               properties = []\<rparr>,
             \<lparr>geometry = GeomPoint (Point 5 6 0), properties = []\<rparr>,
             \<lparr>geometry = GeomPoint (Point 7 8 9), properties = []\<rparr>],
          global_properties = []\<rparr>"
  have doc: "example_collection ''ENU'' fs = JObj (?kvs fs)" for fs
    by (simp add: example_collection_def example_properties_def)
  have h1m: "map_of (?kvs ?mixed) ''properties'' = Some (JObj ?P)" by simp
  have h1p: "map_of (?kvs ?plain) ''properties'' = Some (JObj ?P)" by simp
  have h2: "map_of ?P ''crs'' = Some (JStr ''ENU'')" by simp
  have h3: "''ENU'' = ''ENU'' \<or> ''ENU'' = ''ECEF''" by simp
  have imported: "ReadFeatureCollection (const_dump []) (const_toENU (ENU 0 0 0)) CRS_ENU
      (Some (JObj (?kvs ?mixed))) = Inr ?fc"
    by (simp add: example_defs reader_defs)
  have wf: "map_of (?kvs ?plain) ''type'' = Some (JStr ''FeatureCollection'')
      \<and> map_of ?P ''datum'' = Some (JArr (JNum 52 # JNum 5 # JNum 0 # []))
      \<and> map_of ?P ''heading'' = Some (JNum 0)
      \<and> list_all plain_feature (elements (subscript (JObj (?kvs ?plain)) ''features''))"
    by (simp add: plain_feature_def plain_geometry_def example_defs)
  have back_mixed: "concat (map written_back (elements (subscript (JObj (?kvs ?mixed)) ''features'')))
      = [geometry_node ''Point'' (JArr [JNum 1, JNum 2, JNum 0]), example_line, example_one_ring,
         geometry_node ''Point'' (JArr [JNum 5, JNum 6, JNum 0]),
         geometry_node ''Point'' (JArr [JNum 7, JNum 8, JNum 9])]"
    by (simp add: written_back_def written_geometries.simps written_point_def written_line_def
        written_polygon_def geometry_node_def example_defs)
  have back_plain: "concat (map written_back (elements (subscript (JObj (?kvs ?plain)) ''features'')))
      = [geometry_node ''Point'' (JArr [JNum 1, JNum 2, JNum 0]), example_line, example_one_ring]"
    by (simp add: written_back_def written_geometries.simps written_point_def written_line_def
        written_polygon_def geometry_node_def example_defs)
  note mixed = enu_round_trip [OF h1m h2 h3, of "const_dump []" "const_toENU (ENU 0 0 0)"
      CRS_ENU ?fc 52 5 0 "[]" 0, THEN conjunct1, rule_format, OF imported]
  note plain = enu_round_trip [OF h1p h2 h3, of "const_dump []" "const_toENU (ENU 0 0 0)"
      CRS_ENU ?fc 52 5 0 "[]" 0, THEN conjunct2, rule_format, OF wf]
  from mixed plain imported show ?thesis
    unfolding back_mixed back_plain doc by simp
qed

text \<open>
  For every feature, as C1 states it, the property fails: a Polygon with two rings is
  exported with its first ring only.
\<close>

theorem enu_round_trip_counterexample:
  "ReadFeatureCollection (const_dump []) (const_toENU (ENU 0 0 0)) CRS_ENU
     (Some (example_collection ''ENU'' [example_feature example_two_rings]))
   = Inr \<lparr>crs = CRS_ENU, datum = Datum 52 5 0, heading = Euler 0 0 0,
          features = [\<lparr>geometry = GeomPolygon (Polygon [Point 0 0 0, Point 4 0 0, Point 0 4 0]),
                       properties = []\<rparr>],
          global_properties = []\<rparr>
   \<and> toJson \<lparr>crs = CRS_ENU, datum = Datum 52 5 0, heading = Euler 0 0 0,
          features = [\<lparr>geometry = GeomPolygon (Polygon [Point 0 0 0, Point 4 0 0, Point 0 4 0]),
                       properties = []\<rparr>],
          global_properties = []\<rparr>
     = example_collection ''ENU'' [example_feature example_one_ring]
   \<and> \<not> same_geometry (example_feature example_one_ring) (example_feature example_two_rings)"
  by (simp add: example_defs reader_defs toJson_def featureToJson_def ptCoords_def wgs_def
      same_geometry_def)

end
